theory Spec2Isabelle
  imports Complex_Main
begin

section \<open>JavaScript values\<close>

text \<open>
  The component of \<^verbatim>\<open>src/vue-gl-troika-text.ts\<close> moves attribute values, which
  are arbitrary JavaScript values, into the fields of a troika \<^verbatim>\<open>Text\<close> object.
  The value universe of the model has two layers. A primitive is \<^verbatim>\<open>undefined\<close>,
  \<^verbatim>\<open>null\<close>, a boolean, a number or a string. A value is a primitive, an array of
  primitives, or an object whose properties hold primitives (a \<^verbatim>\<open>THREE.Color\<close> is
  such an object, with the property \<^verbatim>\<open>isColor\<close> set to \<^verbatim>\<open>true\<close>). Symbols,
  BigInts, functions, nested arrays and objects with accessor properties are outside the
  universe. In particular an array with an array or an object among its elements, which
  \<^verbatim>\<open>parseFloat\<close> would read through its string (so that the code accepts
  \<^verbatim>\<open>[[0,0],[1,1]]\<close> as a float array), cannot be written: what is proved of all
  arrays is proved of the arrays of primitives.

  A number is NaN, an infinity, or a finite number given by its exact value: rounding to
  binary64, overflow to an infinity, underflow to zero and the sign of zero are not part
  of the model (\<^verbatim>\<open>parseFloat("1e400")\<close> is \<open>Fin (10 ^ 400)\<close> here and
  \<^verbatim>\<open>Infinity\<close> in the code). Whether a number is NaN does not depend on any of these.
  A string is a list of characters with codes below 256.
\<close>

datatype jsnum = NaN | PosInf | NegInf | Fin rat

datatype prim = Undefined | Null | Bool bool | Num jsnum | Str string

datatype jsval = Prim prim | Arr "prim list" | Obj "(string \<times> prim) list"

text \<open>The only exception the code under study can raise.\<close>

datatype exn = TypeError

text \<open>\<^verbatim>\<open>typeof v === 'number'\<close> and \<^verbatim>\<open>typeof v === 'string'\<close>.\<close>

fun typeof_number :: "jsval \<Rightarrow> bool" where
  "typeof_number (Prim (Num n)) = True"
| "typeof_number v = False"

fun typeof_string :: "jsval \<Rightarrow> bool" where
  "typeof_string (Prim (Str s)) = True"
| "typeof_string v = False"

text \<open>\<^verbatim>\<open>value == null\<close>: loose equality with null holds of null and of undefined.\<close>

fun eq_null :: "jsval \<Rightarrow> bool" where
  "eq_null (Prim Null) = True"
| "eq_null (Prim Undefined) = True"
| "eq_null v = False"

text \<open>ToBoolean, the truth value a condition or \<^verbatim>\<open>||\<close> sees.\<close>

fun truthy_prim :: "prim \<Rightarrow> bool" where
  "truthy_prim Undefined = False"
| "truthy_prim Null = False"
| "truthy_prim (Bool b) = b"
| "truthy_prim (Num n) = (n \<noteq> NaN \<and> n \<noteq> Fin 0)"
| "truthy_prim (Str s) = (s \<noteq> [])"

fun truthy :: "jsval \<Rightarrow> bool" where
  "truthy (Prim p) = truthy_prim p"
| "truthy (Arr xs) = True"
| "truthy (Obj ps) = True"

text \<open>
  Reading the property \<^verbatim>\<open>name\<close> of a value, for a name that no built-in prototype
  defines (\<^verbatim>\<open>isColor\<close>, and \<^verbatim>\<open>split\<close> on anything but a string): null and
  undefined throw, an object answers with its property or undefined, every other value
  answers undefined.
\<close>

fun get_prop :: "jsval \<Rightarrow> string \<Rightarrow> exn + prim" where
  "get_prop (Prim Undefined) name = Inl TypeError"
| "get_prop (Prim Null) name = Inl TypeError"
| "get_prop (Obj ps) name = (case map_of ps name of Some p \<Rightarrow> Inr p | None \<Rightarrow> Inr Undefined)"
| "get_prop v name = Inr Undefined"

subsection \<open>\<^verbatim>\<open>String.prototype.split(',')\<close>\<close>

text \<open>The pieces between the commas; the empty string has the one piece \<^verbatim>\<open>''\<close>.\<close>

fun split_comma :: "string \<Rightarrow> string list" where
  "split_comma [] = [[]]"
| "split_comma (c # cs) =
     (if c = CHR '','' then [] # split_comma cs
      else (c # hd (split_comma cs)) # tl (split_comma cs))"

subsection \<open>\<^verbatim>\<open>parseFloat\<close>\<close>

text \<open>
  ECMAScript's \<^verbatim>\<open>parseFloat(string)\<close>: leading white space is dropped, then the
  longest prefix that is a \<^verbatim>\<open>StrDecimalLiteral\<close> is read; NaN when there is none.
  \<^verbatim>\<open>
  StrDecimalLiteral         ::: [+-]? StrUnsignedDecimalLiteral
  StrUnsignedDecimalLiteral ::: Infinity
                              | DecimalDigits . DecimalDigits? ExponentPart?
                              | . DecimalDigits ExponentPart?
                              | DecimalDigits ExponentPart?
  ExponentPart              ::: [eE] [+-]? DecimalDigits
  \<close>
\<close>

definition is_ws :: "char \<Rightarrow> bool" where
  "is_ws c = (c \<in> set [CHR 0x09, CHR 0x0A, CHR 0x0B, CHR 0x0C, CHR 0x0D, CHR 0x20, CHR 0xA0])"

definition is_digit :: "char \<Rightarrow> bool" where
  "is_digit c = (c \<in> set ''0123456789'')"

definition digits_val :: "string \<Rightarrow> nat" where
  "digits_val ds = foldl (\<lambda>n c. 10 * n + (of_char c - 48)) 0 ds"

text \<open>
  The exponent an optional \<^verbatim>\<open>ExponentPart\<close> at the head of the string denotes. An
  \<^verbatim>\<open>e\<close> that no digit follows is not part of the literal: the exponent is then 0.
\<close>

definition exponent_part :: "string \<Rightarrow> int" where
  "exponent_part s =
     (case s of
        [] \<Rightarrow> 0
      | c # r \<Rightarrow>
          if c = CHR ''e'' \<or> c = CHR ''E'' then
            (case r of
               [] \<Rightarrow> 0
             | d # r' \<Rightarrow>
                 if d = CHR ''+'' then int (digits_val (takeWhile is_digit r'))
                 else if d = CHR ''-'' then - int (digits_val (takeWhile is_digit r'))
                 else int (digits_val (takeWhile is_digit r)))
          else 0)"

definition scale10 :: "rat \<Rightarrow> int \<Rightarrow> rat" where
  "scale10 x e = (if 0 \<le> e then x * 10 ^ nat e else x / 10 ^ nat (- e))"

definition unsigned_literal :: "string \<Rightarrow> jsnum" where
  "unsigned_literal s =
     (if take 8 s = ''Infinity'' then PosInf
      else
        let ip = takeWhile is_digit s;
            r1 = dropWhile is_digit s;
            fp = (case r1 of [] \<Rightarrow> [] | c # r \<Rightarrow> if c = CHR ''.'' then takeWhile is_digit r else []);
            r2 = (case r1 of [] \<Rightarrow> [] | c # r \<Rightarrow> if c = CHR ''.'' then dropWhile is_digit r else r1)
        in if ip = [] \<and> fp = [] then NaN
           else Fin (scale10 (of_nat (digits_val ip) + of_nat (digits_val fp) / 10 ^ length fp)
                             (exponent_part r2)))"

fun negate :: "jsnum \<Rightarrow> jsnum" where
  "negate NaN = NaN"
| "negate PosInf = NegInf"
| "negate NegInf = PosInf"
| "negate (Fin x) = Fin (- x)"

definition parseFloat :: "string \<Rightarrow> jsnum" where
  "parseFloat inputString =
     (case dropWhile is_ws inputString of
        [] \<Rightarrow> NaN
      | c # r \<Rightarrow>
          if c = CHR ''-'' then negate (unsigned_literal r)
          else if c = CHR ''+'' then unsigned_literal r
          else unsigned_literal (c # r))"

text \<open>
  \<^verbatim>\<open>parseFloat(value)\<close> on a primitive that need not be a string: the argument is
  converted with ToString first. The string of a number reads back as that number (the
  digits \<^verbatim>\<open>Number::toString\<close> picks identify it), so a number is returned as it is.
\<close>

fun parseFloat_prim :: "prim \<Rightarrow> jsnum" where
  "parseFloat_prim (Str s) = parseFloat s"
| "parseFloat_prim (Num n) = n"
| "parseFloat_prim Undefined = parseFloat ''undefined''"
| "parseFloat_prim Null = parseFloat ''null''"
| "parseFloat_prim (Bool b) = parseFloat (if b then ''true'' else ''false'')"

section \<open>The helper functions of the module\<close>

text \<open>
  A function that may throw returns \<open>exn + 'a\<close>, with \<open>Inl\<close> for the exception.
  \<^verbatim>\<open>
  function nullableParser(parser) {
    return (value) => value == null ? null : parser(value)
  }
  function nullableValidator(validator) {
    return (value) => value == null ? true : validator(value)
  }
  \<close>
\<close>

definition nullableParser :: "(jsval \<Rightarrow> exn + jsval) \<Rightarrow> jsval \<Rightarrow> exn + jsval" where
  "nullableParser parser v = (if eq_null v then Inr (Prim Null) else parser v)"

definition nullableValidator :: "(jsval \<Rightarrow> exn + jsval) \<Rightarrow> jsval \<Rightarrow> exn + jsval" where
  "nullableValidator validator v = (if eq_null v then Inr (Prim (Bool True)) else validator v)"

text \<open>
  \<^verbatim>\<open>
  function validateFloatArray(array) {
    return (Array.isArray(array) ? array : array.split(','))
      .every(value => !Number.isNaN(parseFloat(value)))
  }
  \<close>
  On a value that is neither an array nor a string, \<^verbatim>\<open>array.split\<close> is not a
  function (or the property access itself throws, on null and undefined): a TypeError.
\<close>

fun validateFloatArray :: "jsval \<Rightarrow> exn + jsval" where
  "validateFloatArray (Arr xs) = Inr (Prim (Bool (list_all (\<lambda>x. parseFloat_prim x \<noteq> NaN) xs)))"
| "validateFloatArray (Prim (Str s)) =
     Inr (Prim (Bool (list_all (\<lambda>x. parseFloat_prim x \<noteq> NaN) (map Str (split_comma s)))))"
| "validateFloatArray v = Inl TypeError"

text \<open>
  \<^verbatim>\<open>
  function validateColor(color) {
    return (<Color>color).isColor ||
      typeof color === 'number' ||
      typeof color === 'string'
  }
  \<close>
  \<^verbatim>\<open>a || b\<close> is \<^verbatim>\<open>a\<close> itself when \<^verbatim>\<open>a\<close> is truthy, so the result is the value
  of the property when that is truthy, and a boolean otherwise.
\<close>

definition validateColor :: "jsval \<Rightarrow> exn + jsval" where
  "validateColor color =
     (case get_prop color ''isColor'' of
        Inl e \<Rightarrow> Inl e
      | Inr p \<Rightarrow>
          if truthy_prim p then Inr (Prim p)
          else Inr (Prim (Bool (typeof_number color \<or> typeof_string color))))"

text \<open>
  \<^verbatim>\<open>
  function parseFloatArray(array) {
    return Array.isArray(array)
      ? array.map(item => typeof item === 'number' ? item : parseFloat(item))
      : array.split(',').map(parseFloat)
  }
  \<close>
\<close>

fun parseFloatArray :: "jsval \<Rightarrow> exn + jsval" where
  "parseFloatArray (Arr xs) =
     Inr (Arr (map (\<lambda>item. case item of Num n \<Rightarrow> Num n | _ \<Rightarrow> Num (parseFloat_prim item)) xs))"
| "parseFloatArray (Prim (Str s)) = Inr (Arr (map (\<lambda>piece. Num (parseFloat piece)) (split_comma s)))"
| "parseFloatArray v = Inl TypeError"

section \<open>The attributes of the component\<close>

text \<open>
  The 31 props the component declares (lines 353--383), which are also the 31
  configuration fields of troika's \<^verbatim>\<open>Text\<close> class that the component writes.
\<close>

datatype attr =
    Text | AnchorX | AnchorY | CurveRadius | Direction | Font | FontSize | LetterSpacing
  | LineHeight | MaxWidth | OverflowWrap | TextAlign | TextIndent | WhiteSpace | Color
  | ColorRanges | OutlineWidth | OutlineColor | OutlineOpacity | OutlineBlur
  | OutlineOffsetX | OutlineOffsetY | StrokeWidth | StrokeColor | StrokeOpacity
  | FillOpacity | DepthOffset | ClipRect | Orientation | GlyphGeometryDetail | SdfGlyphSize

definition num :: "rat \<Rightarrow> jsval" where
  "num x = Prim (Num (Fin x))"

definition str :: "string \<Rightarrow> jsval" where
  "str s = Prim (Str s)"

text \<open>The \<^verbatim>\<open>default\<close> of each prop, from the \<^verbatim>\<open>props\<close> block.\<close>

fun prop_default :: "attr \<Rightarrow> jsval" where
  "prop_default Text = str ''''"
| "prop_default AnchorX = num 0"
| "prop_default AnchorY = num 0"
| "prop_default CurveRadius = num 0"
| "prop_default Direction = str ''auto''"
| "prop_default Font = Prim Null"
| "prop_default FontSize = num (1 / 10)"
| "prop_default LetterSpacing = num 0"
| "prop_default LineHeight = str ''normal''"
| "prop_default MaxWidth = Prim (Num PosInf)"
| "prop_default OverflowWrap = str ''normal''"
| "prop_default TextAlign = str ''left''"
| "prop_default TextIndent = num 0"
| "prop_default WhiteSpace = str ''normal''"
| "prop_default Color = Prim Null"
| "prop_default ColorRanges = Prim Null"
| "prop_default OutlineWidth = num 0"
| "prop_default OutlineColor = num 0"
| "prop_default OutlineOpacity = num 1"
| "prop_default OutlineBlur = num 0"
| "prop_default OutlineOffsetY = num 0"
| "prop_default OutlineOffsetX = num 0"
| "prop_default StrokeWidth = num 0"
| "prop_default StrokeColor = num 0x808080"
| "prop_default StrokeOpacity = num 1"
| "prop_default FillOpacity = num 1"
| "prop_default DepthOffset = num 0"
| "prop_default ClipRect = Prim Null"
| "prop_default Orientation = str ''+x+y''"
| "prop_default GlyphGeometryDetail = num 1"
| "prop_default SdfGlyphSize = Prim Null"

text \<open>
  The \<^verbatim>\<open>validator\<close> of each prop, from the \<^verbatim>\<open>props\<close> block: the three colour
  props and \<^verbatim>\<open>clipRect\<close> declare one, the other props declare none.
\<close>

fun prop_validator :: "attr \<Rightarrow> (jsval \<Rightarrow> exn + jsval) option" where
  "prop_validator Color = Some (nullableValidator validateColor)"
| "prop_validator OutlineColor = Some (nullableValidator validateColor)"
| "prop_validator StrokeColor = Some (nullableValidator validateColor)"
| "prop_validator ClipRect = Some (nullableValidator validateFloatArray)"
| "prop_validator a = None"

text \<open>
  The value of each field of a fresh \<^verbatim>\<open>Text\<close>, from the \<^verbatim>\<open>@default\<close> tags of the
  class declaration of \<^verbatim>\<open>troika-three-text\<close>.
\<close>

fun Text_default :: "attr \<Rightarrow> jsval" where
  "Text_default Text = str ''''"
| "Text_default AnchorX = num 0"
| "Text_default AnchorY = num 0"
| "Text_default CurveRadius = num 0"
| "Text_default Direction = str ''auto''"
| "Text_default Font = Prim Null"
| "Text_default FontSize = num (1 / 10)"
| "Text_default LetterSpacing = num 0"
| "Text_default LineHeight = str ''normal''"
| "Text_default MaxWidth = Prim (Num PosInf)"
| "Text_default OverflowWrap = str ''normal''"
| "Text_default TextAlign = str ''left''"
| "Text_default TextIndent = num 0"
| "Text_default WhiteSpace = str ''normal''"
| "Text_default Color = Prim Null"
| "Text_default ColorRanges = Prim Null"
| "Text_default OutlineWidth = num 0"
| "Text_default OutlineColor = num 0x000000"
| "Text_default OutlineOpacity = num 1"
| "Text_default OutlineBlur = num 0"
| "Text_default OutlineOffsetX = num 0"
| "Text_default OutlineOffsetY = num 0"
| "Text_default StrokeWidth = num 0"
| "Text_default StrokeColor = num 0x808080"
| "Text_default StrokeOpacity = num 1"
| "Text_default FillOpacity = num 1"
| "Text_default DepthOffset = num 0"
| "Text_default ClipRect = Prim Null"
| "Text_default Orientation = str ''+x+y''"
| "Text_default GlyphGeometryDetail = num 1"
| "Text_default SdfGlyphSize = Prim Null"

section \<open>The component and its \<^verbatim>\<open>Text\<close> object\<close>

text \<open>
  What the component does to its surroundings is recorded in a trace: constructing a
  \<^verbatim>\<open>Text\<close>, registering a listener on it, calling its \<^verbatim>\<open>sync()\<close> and
  \<^verbatim>\<open>dispose()\<close>, and calling \<^verbatim>\<open>vglObject3d.emit()\<close>, the redraw signal of the
  host. The one closure the module creates is the listener
  \<^verbatim>\<open>() => { this.vglObject3d.emit() }\<close>.
\<close>

datatype event = NewText | AddEventListener string | Sync | Emit | Dispose

datatype callback = EmitRedraw

text \<open>
  A \<^verbatim>\<open>Text\<close>: its 31 configuration fields, the listeners registered on it, and the
  configurations its \<^verbatim>\<open>sync()\<close> was called with.
\<close>

record TextObj =
  field_values :: "attr \<Rightarrow> jsval"
  listeners :: "(string \<times> callback) list"
  synced :: "(attr \<Rightarrow> jsval) list"

text \<open>
  The state of one component instance: the current props, the cache of the computed
  property \<^verbatim>\<open>inst\<close> (empty until the first access), and the trace. The \<^verbatim>\<open>Text\<close>
  is reachable only through the cache, so assigning to its fields updates the cache.
\<close>

record TroikaText =
  props :: "attr \<Rightarrow> jsval"
  inst_cache :: "TextObj option"
  trace :: "event list"

definition log :: "event \<Rightarrow> TroikaText \<Rightarrow> TroikaText" where
  "log e c = c\<lparr>trace := trace c @ [e]\<rparr>"

definition new_Text :: "TextObj" where
  "new_Text = \<lparr>field_values = Text_default, listeners = [], synced = []\<rparr>"

text \<open>
  \<^verbatim>\<open>sync()\<close> updates the rendering ``according to the current text-related
  configuration properties'' (the class declaration): what a call does depends on the
  fields as they are when it is made. The \<^verbatim>\<open>Text\<close> keeps the configuration of each
  call, in order.
\<close>

definition Text_sync :: "TextObj \<Rightarrow> TextObj" where
  "Text_sync mesh = mesh\<lparr>synced := synced mesh @ [field_values mesh]\<rparr>"

definition addEventListener :: "string \<Rightarrow> callback \<Rightarrow> TextObj \<Rightarrow> TextObj" where
  "addEventListener ty cb mesh = mesh\<lparr>listeners := listeners mesh @ [(ty, cb)]\<rparr>"

text \<open>
  \<^verbatim>\<open>
  inst() {
    const mesh = new Text()
    mesh.addEventListener('synccomplete', () => { this.vglObject3d.emit() })
    return mesh
  }
  \<close>
  A computed property: the getter runs on the first access and the result is cached. The
  getter reads no reactive state, so the cache is never invalidated.
\<close>

definition inst :: "TroikaText \<Rightarrow> TextObj \<times> TroikaText" where
  "inst c =
     (case inst_cache c of
        Some mesh \<Rightarrow> (mesh, c)
      | None \<Rightarrow>
          let mesh = addEventListener ''synccomplete'' EmitRedraw new_Text
          in (mesh, log (AddEventListener ''synccomplete'') (log NewText (c\<lparr>inst_cache := Some mesh\<rparr>))))"

text \<open>\<^verbatim>\<open>this.inst.a = v\<close>, \<^verbatim>\<open>this.inst.sync()\<close> and \<^verbatim>\<open>this.vglObject3d.emit()\<close>.\<close>

definition inst_assign :: "attr \<Rightarrow> jsval \<Rightarrow> TroikaText \<Rightarrow> TroikaText" where
  "inst_assign a v c =
     (let (mesh, c1) = inst c
      in c1\<lparr>inst_cache := Some (mesh\<lparr>field_values := (field_values mesh)(a := v)\<rparr>)\<rparr>)"

definition inst_sync :: "TroikaText \<Rightarrow> TroikaText" where
  "inst_sync c = (let (mesh, c1) = inst c in log Sync (c1\<lparr>inst_cache := Some (Text_sync mesh)\<rparr>))"

definition vglObject3d_emit :: "TroikaText \<Rightarrow> TroikaText" where
  "vglObject3d_emit c = log Emit c"

section \<open>The watchers\<close>

text \<open>
  One handler per prop, in the order of the \<^verbatim>\<open>watch\<close> block; Vue calls it with the
  new value. Each handler assigns the field and then either calls \<^verbatim>\<open>sync()\<close> or
  emits the redraw signal:
  \<^verbatim>\<open>
  text(text)               { this.inst.text = text;               this.inst.sync() }
  curveRadius(curveRadius) { this.inst.curveRadius = curveRadius; this.vglObject3d.emit() }
  clipRect(clipRect) {
    this.inst.clipRect = nullableParser(parseFloatArray)(clipRect)
    this.vglObject3d.emit()
  }
  \<close>
  A handler returns the exception it threw, if any, and the state it left. In the
  \<^verbatim>\<open>clipRect\<close> handler the target \<^verbatim>\<open>this.inst\<close> is evaluated before the right-hand
  side, whose exception leaves the field unassigned.
\<close>

fun watch :: "attr \<Rightarrow> jsval \<Rightarrow> TroikaText \<Rightarrow> exn option \<times> TroikaText" where
  "watch Text v c = (None, inst_sync (inst_assign Text v c))"
| "watch AnchorX v c = (None, inst_sync (inst_assign AnchorX v c))"
| "watch AnchorY v c = (None, inst_sync (inst_assign AnchorY v c))"
| "watch CurveRadius v c = (None, vglObject3d_emit (inst_assign CurveRadius v c))"
| "watch Direction v c = (None, inst_sync (inst_assign Direction v c))"
| "watch Font v c = (None, inst_sync (inst_assign Font v c))"
| "watch FontSize v c = (None, inst_sync (inst_assign FontSize v c))"
| "watch LetterSpacing v c = (None, inst_sync (inst_assign LetterSpacing v c))"
| "watch LineHeight v c = (None, inst_sync (inst_assign LineHeight v c))"
| "watch MaxWidth v c = (None, inst_sync (inst_assign MaxWidth v c))"
| "watch OverflowWrap v c = (None, inst_sync (inst_assign OverflowWrap v c))"
| "watch TextAlign v c = (None, inst_sync (inst_assign TextAlign v c))"
| "watch TextIndent v c = (None, inst_sync (inst_assign TextIndent v c))"
| "watch WhiteSpace v c = (None, inst_sync (inst_assign WhiteSpace v c))"
| "watch Color v c = (None, vglObject3d_emit (inst_assign Color v c))"
| "watch ColorRanges v c = (None, inst_sync (inst_assign ColorRanges v c))"
| "watch OutlineWidth v c = (None, vglObject3d_emit (inst_assign OutlineWidth v c))"
| "watch OutlineColor v c = (None, vglObject3d_emit (inst_assign OutlineColor v c))"
| "watch OutlineOpacity v c = (None, vglObject3d_emit (inst_assign OutlineOpacity v c))"
| "watch OutlineBlur v c = (None, vglObject3d_emit (inst_assign OutlineBlur v c))"
| "watch OutlineOffsetX v c = (None, vglObject3d_emit (inst_assign OutlineOffsetX v c))"
| "watch OutlineOffsetY v c = (None, vglObject3d_emit (inst_assign OutlineOffsetY v c))"
| "watch StrokeWidth v c = (None, vglObject3d_emit (inst_assign StrokeWidth v c))"
| "watch StrokeColor v c = (None, vglObject3d_emit (inst_assign StrokeColor v c))"
| "watch StrokeOpacity v c = (None, vglObject3d_emit (inst_assign StrokeOpacity v c))"
| "watch FillOpacity v c = (None, vglObject3d_emit (inst_assign FillOpacity v c))"
| "watch DepthOffset v c = (None, vglObject3d_emit (inst_assign DepthOffset v c))"
| "watch ClipRect v c =
     (case nullableParser parseFloatArray v of
        Inl e \<Rightarrow> (Some e, snd (inst c))
      | Inr r \<Rightarrow> (None, vglObject3d_emit (inst_assign ClipRect r c)))"
| "watch Orientation v c = (None, vglObject3d_emit (inst_assign Orientation v c))"
| "watch GlyphGeometryDetail v c = (None, vglObject3d_emit (inst_assign GlyphGeometryDetail v c))"
| "watch SdfGlyphSize v c = (None, inst_sync (inst_assign SdfGlyphSize v c))"

text \<open>
  The watcher of \<^verbatim>\<open>inst\<close> itself, declared \<^verbatim>\<open>immediate\<close>: its handler receives the
  \<^verbatim>\<open>Text\<close> and copies the 31 props into it, line by line, then calls \<^verbatim>\<open>sync()\<close>.
  \<^verbatim>\<open>
  handler(inst) {
    inst.text = this.text
    ...
    inst.depthOffset = this.depthOffset
    inst.clipRect = nullableParser(parseFloatArray)(this.clipRect)
    inst.orientation = this.orientation
    inst.glyphGeometryDetail = this.glyphGeometryDetail
    inst.sdfGlyphSize = this.sdfGlyphSize
    inst.sync()
  }
  \<close>
  An exception of the \<^verbatim>\<open>clipRect\<close> line ends the handler there: the 27 fields before
  it are assigned, the three after it are not, and \<^verbatim>\<open>sync()\<close> is not called.
  \<open>assign\<close> and \<open>sync\<close> are \<^verbatim>\<open>inst.a = v\<close> and \<^verbatim>\<open>inst.sync()\<close> on the
  argument of the handler, which is the cached \<^verbatim>\<open>Text\<close>.
\<close>

definition assign :: "attr \<Rightarrow> jsval \<Rightarrow> TroikaText \<Rightarrow> TroikaText" where
  "assign a v c =
     c\<lparr>inst_cache :=
         map_option (\<lambda>mesh. mesh\<lparr>field_values := (field_values mesh)(a := v)\<rparr>) (inst_cache c)\<rparr>"

definition sync :: "TroikaText \<Rightarrow> TroikaText" where
  "sync c = log Sync (c\<lparr>inst_cache := map_option Text_sync (inst_cache c)\<rparr>)"

definition copy_props :: "attr list \<Rightarrow> TroikaText \<Rightarrow> TroikaText" where
  "copy_props attrs c = foldl (\<lambda>s a. assign a (props s a) s) c attrs"

definition inst_handler :: "TroikaText \<Rightarrow> exn option \<times> TroikaText" where
  "inst_handler c =
     (let c1 = copy_props
                 [Text, AnchorX, AnchorY, CurveRadius, Direction, Font, FontSize, LetterSpacing,
                  LineHeight, MaxWidth, OverflowWrap, TextAlign, TextIndent, WhiteSpace, Color,
                  ColorRanges, OutlineWidth, OutlineColor, OutlineOpacity, OutlineBlur,
                  OutlineOffsetX, OutlineOffsetY, StrokeWidth, StrokeColor, StrokeOpacity,
                  FillOpacity, DepthOffset] c
      in case nullableParser parseFloatArray (props c1 ClipRect) of
           Inl e \<Rightarrow> (Some e, c1)
         | Inr r \<Rightarrow>
             (None, sync (copy_props [Orientation, GlyphGeometryDetail, SdfGlyphSize]
                           (assign ClipRect r c1))))"

section \<open>The life of a component\<close>

text \<open>
  Creation: Vue sets up the watchers of the new component with the props it was given.
  Setting up the watcher of \<^verbatim>\<open>inst\<close> reads \<^verbatim>\<open>this.inst\<close>, which constructs the
  \<^verbatim>\<open>Text\<close>, and, the watcher being immediate, runs its handler at once.
\<close>

definition created :: "(attr \<Rightarrow> jsval) \<Rightarrow> exn option \<times> TroikaText" where
  "created ps =
     (let (mesh, c1) = inst \<lparr>props = ps, inst_cache = None, trace = []\<rparr>
      in inst_handler c1)"

text \<open>
  A prop changes: Vue stores the new value and calls the prop's watcher with it (Vue
  does so when the value differs from the old one; nothing below depends on that). Vue's
  prop validation is advisory: a value that fails the declared type or validator is
  reported on the console by development builds and is assigned all the same, so the
  validator of the prop has no part in this step.
\<close>

definition propChange :: "attr \<Rightarrow> jsval \<Rightarrow> TroikaText \<Rightarrow> exn option \<times> TroikaText" where
  "propChange a v c = watch a v (c\<lparr>props := (props c)(a := v)\<rparr>)"

text \<open>
  The \<^verbatim>\<open>Text\<close> dispatches an event (troika dispatches \<^verbatim>\<open>synccomplete\<close> when a
  resync has finished): the listeners registered for its type run in order.
\<close>

fun run_callback :: "callback \<Rightarrow> TroikaText \<Rightarrow> TroikaText" where
  "run_callback EmitRedraw c = vglObject3d_emit c"

definition dispatchEvent :: "string \<Rightarrow> TroikaText \<Rightarrow> TroikaText" where
  "dispatchEvent ty c =
     (case inst_cache c of
        None \<Rightarrow> c
      | Some mesh \<Rightarrow>
          foldl (\<lambda>s cb. run_callback cb s) c
            (map snd (filter (\<lambda>l. fst l = ty) (listeners mesh))))"


text \<open>
  What happens to a live component: a prop changes, or a resync completes. Vue catches
  an exception that a watcher throws, and the component goes on from the state the
  watcher left.
\<close>

datatype op = PropChange attr jsval | SyncComplete

fun step :: "TroikaText \<Rightarrow> op \<Rightarrow> TroikaText" where
  "step c (PropChange a v) = snd (propChange a v c)"
| "step c SyncComplete = dispatchEvent ''synccomplete'' c"

definition run :: "TroikaText \<Rightarrow> op list \<Rightarrow> TroikaText" where
  "run c ops = foldl step c ops"

text \<open>The component after creation with the props \<open>ps\<close> and the happenings \<open>ops\<close>.\<close>

definition live :: "(attr \<Rightarrow> jsval) \<Rightarrow> op list \<Rightarrow> TroikaText" where
  "live ps ops = run (snd (created ps)) ops"

text \<open>The events a step appended to the trace of \<open>c\<close>, leading to \<open>c'\<close>.\<close>

definition new_events :: "TroikaText \<Rightarrow> TroikaText \<Rightarrow> event list" where
  "new_events c c' = drop (length (trace c)) (trace c')"

text \<open>The fields of the component's \<^verbatim>\<open>Text\<close>.\<close>

definition inst_fields :: "TroikaText \<Rightarrow> (attr \<Rightarrow> jsval) option" where
  "inst_fields c = map_option field_values (inst_cache c)"

section \<open>Vocabulary of the properties\<close>

text \<open>The \<^verbatim>\<open>Text\<close> as the getter of \<^verbatim>\<open>inst\<close> returns it.\<close>

definition fresh_Text :: "TextObj" where
  "fresh_Text = addEventListener ''synccomplete'' EmitRedraw new_Text"

text \<open>
  The coercion a watcher applies to the new value before it stores it: the null-passing
  array parser for \<^verbatim>\<open>clipRect\<close>, nothing for the other props.
\<close>

definition coercion :: "attr \<Rightarrow> jsval \<Rightarrow> exn + jsval" where
  "coercion a v = (if a = ClipRect then nullableParser parseFloatArray v else Inr v)"

text \<open>
  What the field of an attribute is to hold once the attribute has the value \<open>v\<close>,
  told from the shape of \<open>v\<close> alone. For \<^verbatim>\<open>clipRect\<close>: null for null and
  undefined; for a string, the array of its comma-separated pieces, each read by
  \<^verbatim>\<open>parseFloat\<close>; for an array, the array with its numbers kept and each other
  element read by \<^verbatim>\<open>parseFloat\<close> (a string by its text, and undefined, null and the
  booleans as NaN); and nothing for any other value. For every other attribute: \<open>v\<close>
  itself.
\<close>

fun clipRect_element :: "prim \<Rightarrow> prim" where
  "clipRect_element (Num n) = Num n"
| "clipRect_element (Str s) = Num (parseFloat s)"
| "clipRect_element p = Num NaN"

fun clipRect_array :: "jsval \<Rightarrow> jsval option" where
  "clipRect_array (Prim Null) = Some (Prim Null)"
| "clipRect_array (Prim Undefined) = Some (Prim Null)"
| "clipRect_array (Prim (Str s)) = Some (Arr (map (\<lambda>piece. Num (parseFloat piece)) (split_comma s)))"
| "clipRect_array (Arr xs) = Some (Arr (map clipRect_element xs))"
| "clipRect_array v = None"

definition expected_field :: "attr \<Rightarrow> jsval \<Rightarrow> jsval option" where
  "expected_field a v = (if a = ClipRect then clipRect_array v else Some v)"

text \<open>
  The fields of the \<^verbatim>\<open>Text\<close> of a component created with the props \<open>ps\<close> whose
  \<^verbatim>\<open>clipRect\<close> made the handler throw: the props, but for the four attributes from
  \<^verbatim>\<open>clipRect\<close> on, which keep the values of a fresh \<^verbatim>\<open>Text\<close>.
\<close>

definition partly_applied :: "(attr \<Rightarrow> jsval) \<Rightarrow> attr \<Rightarrow> jsval" where
  "partly_applied ps =
     override_on ps Text_default {ClipRect, Orientation, GlyphGeometryDetail, SdfGlyphSize}"

text \<open>The configurations that the \<^verbatim>\<open>sync()\<close> of the component's \<^verbatim>\<open>Text\<close> was called with.\<close>

definition inst_synced :: "TroikaText \<Rightarrow> (attr \<Rightarrow> jsval) list option" where
  "inst_synced c = map_option synced (inst_cache c)"

text \<open>
  The attributes that the specification names as layout-affecting (content,
  box/alignment/wrap, font and colour ranges). This list follows the specification, not
  the code.
\<close>

definition spec_layout_affecting :: "attr list" where
  "spec_layout_affecting =
     [Text, AnchorX, AnchorY, Direction, Font, FontSize, LetterSpacing, LineHeight, MaxWidth,
      OverflowWrap, TextAlign, TextIndent, WhiteSpace, ColorRanges]"

text \<open>The attributes whose watcher ends with \<^verbatim>\<open>this.inst.sync()\<close>.\<close>

definition resync_attrs :: "attr list" where
  "resync_attrs =
     [Text, AnchorX, AnchorY, Direction, Font, FontSize, LetterSpacing, LineHeight, MaxWidth,
      OverflowWrap, TextAlign, TextIndent, WhiteSpace, ColorRanges, SdfGlyphSize]"

text \<open>The other attributes: their watcher ends with \<^verbatim>\<open>this.vglObject3d.emit()\<close>.\<close>

definition redraw_attrs :: "attr list" where
  "redraw_attrs =
     [CurveRadius, Color, OutlineWidth, OutlineColor, OutlineOpacity, OutlineBlur,
      OutlineOffsetX, OutlineOffsetY, StrokeWidth, StrokeColor, StrokeOpacity, FillOpacity,
      DepthOffset, ClipRect, Orientation, GlyphGeometryDetail]"

text \<open>The colour-typed attributes.\<close>

definition color_attrs :: "attr list" where
  "color_attrs = [Color, OutlineColor, StrokeColor]"

text \<open>
  A component that owns its one \<^verbatim>\<open>Text\<close>: the cache holds it, it carries the one
  completion listener, and the trace shows one construction and no disposal.
\<close>

definition one_Text :: "TroikaText \<Rightarrow> bool" where
  "one_Text c =
     (case inst_cache c of
        None \<Rightarrow> False
      | Some mesh \<Rightarrow>
          listeners mesh = [(''synccomplete'', EmitRedraw)] \<and>
          count_list (trace c) NewText = 1 \<and> count_list (trace c) Dispose = 0)"


fun is_boolean :: "jsval \<Rightarrow> bool" where
  "is_boolean (Prim (Bool b)) = True"
| "is_boolean v = False"

fun is_string :: "jsval \<Rightarrow> bool" where
  "is_string (Prim (Str s)) = True"
| "is_string v = False"

fun is_array :: "jsval \<Rightarrow> bool" where
  "is_array (Arr xs) = True"
| "is_array v = False"

text \<open>
  An object whose \<^verbatim>\<open>isColor\<close> flag is set (it holds a truthy value), as that of a
  \<^verbatim>\<open>THREE.Color\<close> is.
\<close>

fun isColor_set :: "jsval \<Rightarrow> bool" where
  "isColor_set (Obj ps) = (case map_of ps ''isColor'' of Some p \<Rightarrow> truthy_prim p | None \<Rightarrow> False)"
| "isColor_set v = False"




section \<open>Facts about the model\<close>

subsection \<open>Parsing and validation\<close>







lemma validateFloatArray_other:
  "\<not> is_array v \<Longrightarrow> \<not> is_string v \<Longrightarrow> validateFloatArray v = Inl TypeError"
  by (cases v rule: validateFloatArray.cases) simp_all


lemma validateColor_nonnull:
  "\<not> eq_null v \<Longrightarrow>
   \<exists>r. validateColor v = Inr r \<and> truthy r = (typeof_number v \<or> typeof_string v \<or> isColor_set v)"
proof (cases v)
  case (Prim p)
  assume "\<not> eq_null v"
  with Prim show ?thesis by (cases p) (simp_all add: validateColor_def)
next
  case (Arr xs)
  then show ?thesis by (simp add: validateColor_def)
next
  case (Obj ps)
  then show ?thesis by (simp add: validateColor_def split: option.splits)
qed

lemma parseFloatArray_validated:
  assumes "validateFloatArray v = Inr (Prim (Bool True))"
  shows "\<exists>ns. parseFloatArray v = Inr (Arr (map Num ns)) \<and> NaN \<notin> set ns"
proof (cases v rule: validateFloatArray.cases)
  case (1 xs)
  have "(\<lambda>item. case item of Num n \<Rightarrow> Num n | _ \<Rightarrow> Num (parseFloat_prim item))
        = (\<lambda>item. Num (parseFloat_prim item))"
    by (rule ext) (simp split: prim.splits)
  then have "parseFloatArray v = Inr (Arr (map Num (map parseFloat_prim xs)))"
    using 1 by simp
  moreover have "NaN \<notin> set (map parseFloat_prim xs)"
    using assms 1 by (auto simp: list_all_iff)
  ultimately show ?thesis by blast
next
  case (2 s)
  have "parseFloatArray v = Inr (Arr (map Num (map parseFloat (split_comma s))))"
    using 2 by simp
  moreover have "NaN \<notin> set (map parseFloat (split_comma s))"
    using assms 2 by (auto simp: list_all_iff)
  ultimately show ?thesis by blast
qed (use assms in simp_all)

lemma parseFloatArray_numbers: "parseFloatArray (Arr (map Num ns)) = Inr (Arr (map Num ns))"
  by simp

subsection \<open>The component\<close>

lemma inst_Some: "inst_cache c = Some m \<Longrightarrow> inst c = (m, c)"
  by (simp add: inst_def)

lemma inst_None:
  "inst_cache c = None \<Longrightarrow>
   inst c = (fresh_Text, c\<lparr>inst_cache := Some fresh_Text,
                            trace := trace c @ [NewText, AddEventListener ''synccomplete'']\<rparr>)"
  by (simp add: inst_def fresh_Text_def log_def Let_def)

lemma inst_assign_Some:
  "inst_cache c = Some m \<Longrightarrow>
   inst_assign a v c = c\<lparr>inst_cache := Some (m\<lparr>field_values := (field_values m)(a := v)\<rparr>)\<rparr>"
  by (simp add: inst_assign_def inst_Some)

lemma Text_sync_simps [simp]:
  "field_values (Text_sync m) = field_values m"
  "listeners (Text_sync m) = listeners m"
  "synced (Text_sync m) = synced m @ [field_values m]"
  by (simp_all add: Text_sync_def)

lemma inst_sync_Some:
  "inst_cache c = Some m \<Longrightarrow> inst_sync c = log Sync (c\<lparr>inst_cache := Some (Text_sync m)\<rparr>)"
  by (simp add: inst_sync_def inst_Some)

lemma resync_or_redraw: "a \<in> set resync_attrs \<or> a \<in> set redraw_attrs"
  by (cases a) (simp_all add: resync_attrs_def redraw_attrs_def spec_layout_affecting_def)

lemma resync_not_redraw: "a \<in> set resync_attrs \<Longrightarrow> a \<notin> set redraw_attrs"
  by (cases a) (simp_all add: resync_attrs_def redraw_attrs_def spec_layout_affecting_def)

lemma watch_Some:
  assumes "inst_cache c = Some m"
  shows "watch a v c =
     (case coercion a v of
        Inl e \<Rightarrow> (Some e, c)
      | Inr w \<Rightarrow> (None, log (if a \<in> set resync_attrs then Sync else Emit)
                        (c\<lparr>inst_cache := Some ((if a \<in> set resync_attrs then Text_sync else id)
                              (m\<lparr>field_values := (field_values m)(a := w)\<rparr>))\<rparr>)))"
  using assms
  by (cases a)
     (simp_all add: coercion_def resync_attrs_def spec_layout_affecting_def inst_assign_Some
        inst_sync_Some inst_Some vglObject3d_emit_def split: sum.splits)

lemma propChange_Some:
  assumes "inst_cache c = Some m"
  shows "propChange a v c =
     (case coercion a v of
        Inl e \<Rightarrow> (Some e, c\<lparr>props := (props c)(a := v)\<rparr>)
      | Inr w \<Rightarrow> (None, log (if a \<in> set resync_attrs then Sync else Emit)
                        (c\<lparr>props := (props c)(a := v),
                           inst_cache := Some ((if a \<in> set resync_attrs then Text_sync else id)
                              (m\<lparr>field_values := (field_values m)(a := w)\<rparr>))\<rparr>)))"
  using assms by (simp add: propChange_def watch_Some split: sum.splits)

lemma assign_Some:
  "inst_cache c = Some m \<Longrightarrow>
   assign a v c = c\<lparr>inst_cache := Some (m\<lparr>field_values := (field_values m)(a := v)\<rparr>)\<rparr>"
  by (simp add: assign_def)

lemma copy_props_Some:
  "inst_cache c = Some m \<Longrightarrow>
   copy_props attrs c =
     c\<lparr>inst_cache := Some (m\<lparr>field_values := override_on (field_values m) (props c) (set attrs)\<rparr>)\<rparr>"
proof (induction attrs arbitrary: c m)
  case Nil
  then show ?case by (simp add: copy_props_def)
next
  case (Cons a attrs)
  let ?m = "m\<lparr>field_values := (field_values m)(a := props c a)\<rparr>"
  let ?c = "c\<lparr>inst_cache := Some ?m\<rparr>"
  have step: "copy_props (a # attrs) c = copy_props attrs ?c"
    using Cons.prems by (simp add: copy_props_def assign_Some)
  have "inst_cache ?c = Some ?m" by simp
  from Cons.IH [OF this] have "copy_props attrs ?c =
     ?c\<lparr>inst_cache := Some (?m\<lparr>field_values := override_on (field_values ?m) (props ?c) (set attrs)\<rparr>)\<rparr>" .
  moreover have "override_on (field_values ?m) (props ?c) (set attrs)
      = override_on (field_values m) (props c) (set (a # attrs))"
    by (auto simp: override_on_def fun_eq_iff)
  ultimately show ?case using step by simp
qed

lemma created_eq:
  "created ps =
     (case coercion ClipRect (ps ClipRect) of
        Inl e \<Rightarrow>
          (Some e,
           \<lparr>props = ps,
            inst_cache = Some (fresh_Text\<lparr>field_values :=
               override_on ps Text_default {ClipRect, Orientation, GlyphGeometryDetail, SdfGlyphSize}\<rparr>),
            trace = [NewText, AddEventListener ''synccomplete'']\<rparr>)
      | Inr r \<Rightarrow>
          (None,
           \<lparr>props = ps,
            inst_cache = Some (Text_sync (fresh_Text\<lparr>field_values := ps(ClipRect := r)\<rparr>)),
            trace = [NewText, AddEventListener ''synccomplete'', Sync]\<rparr>))"
proof -
  let ?c1 = "\<lparr>props = ps, inst_cache = Some fresh_Text,
              trace = [NewText, AddEventListener ''synccomplete'']\<rparr>"
  have c: "created ps = inst_handler ?c1"
    by (simp add: created_def inst_None)
  have fresh: "field_values fresh_Text = Text_default"
    by (simp add: fresh_Text_def addEventListener_def new_Text_def)
  show ?thesis
  proof (cases "coercion ClipRect (ps ClipRect)")
    case (Inl e)
    have "\<And>a. override_on Text_default ps (set
                 [Text, AnchorX, AnchorY, CurveRadius, Direction, Font, FontSize, LetterSpacing,
                  LineHeight, MaxWidth, OverflowWrap, TextAlign, TextIndent, WhiteSpace, Color,
                  ColorRanges, OutlineWidth, OutlineColor, OutlineOpacity, OutlineBlur,
                  OutlineOffsetX, OutlineOffsetY, StrokeWidth, StrokeColor, StrokeOpacity,
                  FillOpacity, DepthOffset]) a
         = override_on ps Text_default {ClipRect, Orientation, GlyphGeometryDetail, SdfGlyphSize} a"
      subgoal for a by (cases a) (simp_all add: override_on_def)
      done
    then have "override_on Text_default ps (set
                 [Text, AnchorX, AnchorY, CurveRadius, Direction, Font, FontSize, LetterSpacing,
                  LineHeight, MaxWidth, OverflowWrap, TextAlign, TextIndent, WhiteSpace, Color,
                  ColorRanges, OutlineWidth, OutlineColor, OutlineOpacity, OutlineBlur,
                  OutlineOffsetX, OutlineOffsetY, StrokeWidth, StrokeColor, StrokeOpacity,
                  FillOpacity, DepthOffset])
         = override_on ps Text_default {ClipRect, Orientation, GlyphGeometryDetail, SdfGlyphSize}"
      by (rule ext)
    with Inl c fresh show ?thesis
      by (simp add: inst_handler_def copy_props_Some coercion_def)
  next
    case (Inr r)
    have "\<And>a. override_on
            ((override_on Text_default ps (set
                 [Text, AnchorX, AnchorY, CurveRadius, Direction, Font, FontSize, LetterSpacing,
                  LineHeight, MaxWidth, OverflowWrap, TextAlign, TextIndent, WhiteSpace, Color,
                  ColorRanges, OutlineWidth, OutlineColor, OutlineOpacity, OutlineBlur,
                  OutlineOffsetX, OutlineOffsetY, StrokeWidth, StrokeColor, StrokeOpacity,
                  FillOpacity, DepthOffset]))(ClipRect := r))
            ps (set [Orientation, GlyphGeometryDetail, SdfGlyphSize]) a
         = (ps(ClipRect := r)) a"
      subgoal for a by (cases a) (simp_all add: override_on_def)
      done
    then have "override_on
            ((override_on Text_default ps (set
                 [Text, AnchorX, AnchorY, CurveRadius, Direction, Font, FontSize, LetterSpacing,
                  LineHeight, MaxWidth, OverflowWrap, TextAlign, TextIndent, WhiteSpace, Color,
                  ColorRanges, OutlineWidth, OutlineColor, OutlineOpacity, OutlineBlur,
                  OutlineOffsetX, OutlineOffsetY, StrokeWidth, StrokeColor, StrokeOpacity,
                  FillOpacity, DepthOffset]))(ClipRect := r))
            ps (set [Orientation, GlyphGeometryDetail, SdfGlyphSize])
         = ps(ClipRect := r)"
      by (rule ext)
    with Inr c fresh show ?thesis
      by (simp add: inst_handler_def copy_props_Some coercion_def assign_Some log_def sync_def)
  qed
qed


lemma fresh_listeners: "listeners fresh_Text = [(''synccomplete'', EmitRedraw)]"
  by (simp add: fresh_Text_def addEventListener_def new_Text_def)

lemma one_Text_created: "one_Text (snd (created ps))"
  by (simp add: created_eq one_Text_def fresh_listeners split: sum.splits)

lemma one_Text_cache:
  "one_Text c \<Longrightarrow> \<exists>m. inst_cache c = Some m \<and> listeners m = [(''synccomplete'', EmitRedraw)]"
  by (auto simp: one_Text_def split: option.splits)

lemma dispatch_synccomplete:
  "one_Text c \<Longrightarrow> dispatchEvent ''synccomplete'' c = log Emit c"
  by (auto simp: one_Text_def dispatchEvent_def vglObject3d_emit_def split: option.splits)

lemma one_Text_log: "one_Text c \<Longrightarrow> e \<noteq> NewText \<Longrightarrow> e \<noteq> Dispose \<Longrightarrow> one_Text (log e c)"
  by (auto simp: one_Text_def log_def split: option.splits)

lemma one_Text_step: "one_Text c \<Longrightarrow> one_Text (step c x)"
proof (cases x)
  case (PropChange a v)
  assume o: "one_Text c"
  then obtain m where m: "inst_cache c = Some m" "listeners m = [(''synccomplete'', EmitRedraw)]"
    using one_Text_cache by blast
  show ?thesis using o m PropChange
    by (auto simp: propChange_Some one_Text_def log_def split: sum.splits)
next
  case SyncComplete
  assume "one_Text c"
  then show ?thesis using SyncComplete
    by (simp add: dispatch_synccomplete one_Text_log)
qed

lemma one_Text_run: "one_Text c \<Longrightarrow> one_Text (run c ops)"
  unfolding run_def by (induction ops arbitrary: c) (simp_all add: one_Text_step)

lemma one_Text_live: "one_Text (live ps ops)"
  by (simp add: live_def one_Text_run one_Text_created)


lemma new_events_log: "new_events c (log e c) = [e]"
  by (simp add: new_events_def log_def)

lemma trace_log_upd [simp]: "trace (log e c) = trace c @ [e]"
  by (simp add: log_def)

lemma propChange_live:
  assumes "one_Text c"
  shows "\<exists>m. inst_cache c = Some m \<and> propChange a v c =
     (case coercion a v of
        Inl e \<Rightarrow> (Some e, c\<lparr>props := (props c)(a := v)\<rparr>)
      | Inr w \<Rightarrow> (None, log (if a \<in> set resync_attrs then Sync else Emit)
                        (c\<lparr>props := (props c)(a := v),
                           inst_cache := Some ((if a \<in> set resync_attrs then Text_sync else id)
                              (m\<lparr>field_values := (field_values m)(a := w)\<rparr>))\<rparr>)))"
  using one_Text_cache [OF assms] propChange_Some by blast

lemma coercion_0011:
  "coercion ClipRect (str ''0,0,1,1'') = Inr (Arr [Num (Fin 0), Num (Fin 0), Num (Fin 1), Num (Fin 1)])"
  by (simp add: coercion_def nullableParser_def str_def parseFloat_def unsigned_literal_def
        is_ws_def is_digit_def digits_val_def exponent_part_def scale10_def)

lemma coercion_typed:
  "eq_null v \<or> is_string v \<or> is_array v \<Longrightarrow> \<exists>w. coercion a v = Inr w"
  by (cases v rule: parseFloatArray.cases) (auto simp: coercion_def nullableParser_def)

lemma coercion_other: "a \<noteq> ClipRect \<Longrightarrow> coercion a v = Inr v"
  by (simp add: coercion_def)

lemma coercion_null: "coercion a (Prim Null) = Inr (Prim Null)"
  by (simp add: coercion_def nullableParser_def)

lemma inst_fields_change:
  assumes "one_Text c" "coercion a v = Inr w"
  shows "\<exists>f. inst_fields c = Some f \<and> fst (propChange a v c) = None \<and>
             inst_fields (snd (propChange a v c)) = Some (f(a := w)) \<and>
             new_events c (snd (propChange a v c)) = [if a \<in> set resync_attrs then Sync else Emit]"
proof -
  from propChange_live [OF assms(1), of a v] obtain m where
    m: "inst_cache c = Some m" and
    p: "propChange a v c = (None, log (if a \<in> set resync_attrs then Sync else Emit)
                        (c\<lparr>props := (props c)(a := v),
                           inst_cache := Some ((if a \<in> set resync_attrs then Text_sync else id)
                              (m\<lparr>field_values := (field_values m)(a := w)\<rparr>))\<rparr>))"
    using assms(2) by auto
  show ?thesis using m p by (simp add: inst_fields_def log_def new_events_def)
qed

lemma change_throws:
  assumes "one_Text c" "coercion a v = Inl e"
  shows "propChange a v c = (Some e, c\<lparr>props := (props c)(a := v)\<rparr>)"
  using propChange_live [OF assms(1), of a v] assms(2) by auto

lemma created_fields:
  assumes "coercion ClipRect (ps ClipRect) = Inr r"
  shows "created ps =
          (None, \<lparr>props = ps,
                  inst_cache = Some \<lparr>field_values = ps(ClipRect := r),
                                      listeners = [(''synccomplete'', EmitRedraw)],
                                      synced = [ps(ClipRect := r)]\<rparr>,
                  trace = [NewText, AddEventListener ''synccomplete'', Sync]\<rparr>)"
  using assms
  by (simp add: created_eq fresh_Text_def addEventListener_def new_Text_def Text_sync_def)

lemma created_coerced:
  assumes "coercion ClipRect (ps ClipRect) = Inr r"
  shows "coercion b (ps b) = Inr ((ps(ClipRect := r)) b)"
  using assms by (cases "b = ClipRect") (simp_all add: coercion_other)

lemma live_default: "inst_fields (live prop_default []) = Some prop_default"
proof -
  have "coercion ClipRect (prop_default ClipRect) = Inr (Prim Null)"
    by (simp add: coercion_null)
  from created_fields [of prop_default "Prim Null", OF this] have "inst_fields (snd (created prop_default))
      = Some (prop_default(ClipRect := Prim Null))"
    by (simp add: inst_fields_def)
  moreover have "prop_default(ClipRect := Prim Null) = prop_default"
    by (rule ext) simp
  ultimately show ?thesis by (simp add: live_def run_def)
qed

lemma SdfGlyphSize_not_spec: "SdfGlyphSize \<notin> set spec_layout_affecting"
  by (simp add: spec_layout_affecting_def)

lemma SdfGlyphSize_resync: "SdfGlyphSize \<in> set resync_attrs"
  by (simp add: resync_attrs_def)

lemma spec_layout_resync: "a \<in> set spec_layout_affecting \<Longrightarrow> a \<in> set resync_attrs"
  by (auto simp: resync_attrs_def spec_layout_affecting_def)

lemma resync_no_coercion: "a \<in> set resync_attrs \<Longrightarrow> coercion a v = Inr v"
  by (rule coercion_other) (auto simp: resync_attrs_def spec_layout_affecting_def)
lemma validateColor_boolean: "nullableValidator validateColor (Prim (Bool b)) = Inr (Prim (Bool False))"
  by (simp add: nullableValidator_def validateColor_def)

lemma color_attrs_redraw: "a \<in> set color_attrs \<Longrightarrow> a \<in> set redraw_attrs \<and> a \<noteq> ClipRect"
  by (auto simp: color_attrs_def redraw_attrs_def)

lemma color_attrs_validator:
  "a \<in> set color_attrs \<Longrightarrow> prop_validator a = Some (nullableValidator validateColor)"
  by (auto simp: color_attrs_def)



lemma nullableValidator_null: "eq_null v \<Longrightarrow> nullableValidator f v = Inr (Prim (Bool True))"
  by (simp add: nullableValidator_def)

lemma nullableValidator_nonnull: "\<not> eq_null v \<Longrightarrow> nullableValidator f v = f v"
  by (simp add: nullableValidator_def)

lemma validateColor_boolean_result:
  "\<not> eq_null v \<Longrightarrow> \<not> isColor_set v \<Longrightarrow> \<exists>b. validateColor v = Inr (Prim (Bool b))"
proof (cases v)
  case (Prim p)
  assume "\<not> eq_null v"
  with Prim show ?thesis by (cases p) (auto simp: validateColor_def)
next
  case (Arr xs)
  then show ?thesis by (auto simp: validateColor_def)
next
  case (Obj ps)
  assume "\<not> isColor_set v"
  with Obj show ?thesis by (auto simp: validateColor_def split: option.splits)
qed

lemma validateFloatArray_typed:
  "is_string v \<or> is_array v \<Longrightarrow> \<exists>b. validateFloatArray v = Inr (Prim (Bool b))"
  by (cases v rule: validateFloatArray.cases) auto

lemma clipRect_element_eq:
  "(case item of Num n \<Rightarrow> Num n | _ \<Rightarrow> Num (parseFloat_prim item)) = clipRect_element item"
  by (cases item)
     (simp_all add: parseFloat_def unsigned_literal_def is_ws_def is_digit_def)

lemma parseFloatArray_Arr: "parseFloatArray (Arr xs) = Inr (Arr (map clipRect_element xs))"
  by (simp add: clipRect_element_eq)

lemma nullableParser_clipRect_array:
  "nullableParser parseFloatArray v =
     (case clipRect_array v of Some w \<Rightarrow> Inr w | None \<Rightarrow> Inl TypeError)"
  by (cases v rule: clipRect_array.cases)
     (simp_all add: nullableParser_def clipRect_element_eq)

lemma coercion_expected:
  "coercion a v = (case expected_field a v of Some w \<Rightarrow> Inr w | None \<Rightarrow> Inl TypeError)"
  by (simp add: coercion_def expected_field_def nullableParser_clipRect_array)

lemma clipRect_array_defined:
  "(clipRect_array v \<noteq> None) = (eq_null v \<or> is_string v \<or> is_array v)"
  by (cases v rule: clipRect_array.cases) simp_all

lemma clipRect_array_shape:
  "clipRect_array v = Some w \<Longrightarrow> w = Prim Null \<or> (\<exists>ns. w = Arr (map Num ns))"
proof (cases v rule: clipRect_array.cases)
  case (3 s)
  assume "clipRect_array v = Some w"
  with 3 have "w = Arr (map Num (map parseFloat (split_comma s)))" by auto
  then show ?thesis by blast
next
  case (4 xs)
  have "clipRect_element x = Num (parseFloat_prim x)" for x
    using clipRect_element_eq [of x] by (cases x) simp_all
  then have "map clipRect_element xs = map Num (map parseFloat_prim xs)" by simp
  moreover assume "clipRect_array v = Some w"
  ultimately have "w = Arr (map Num (map parseFloat_prim xs))" using 4 by auto
  then show ?thesis by blast
qed auto

lemma created_failed:
  assumes "expected_field ClipRect (ps ClipRect) = None"
  shows "created ps =
          (Some TypeError,
           \<lparr>props = ps,
            inst_cache = Some \<lparr>field_values = partly_applied ps,
                                listeners = [(''synccomplete'', EmitRedraw)],
                                synced = []\<rparr>,
            trace = [NewText, AddEventListener ''synccomplete'']\<rparr>)"
proof -
  have "coercion ClipRect (ps ClipRect) = Inl TypeError"
    using assms by (simp add: coercion_expected)
  then show ?thesis
    by (simp add: created_eq partly_applied_def fresh_Text_def addEventListener_def new_Text_def)
qed

lemma created_applied:
  assumes "expected_field ClipRect (ps ClipRect) = Some r"
  shows "created ps =
          (None, \<lparr>props = ps,
                  inst_cache = Some \<lparr>field_values = ps(ClipRect := r),
                                      listeners = [(''synccomplete'', EmitRedraw)],
                                      synced = [ps(ClipRect := r)]\<rparr>,
                  trace = [NewText, AddEventListener ''synccomplete'', Sync]\<rparr>)"
    and "expected_field b (ps b) = Some ((ps(ClipRect := r)) b)"
proof -
  have c: "coercion ClipRect (ps ClipRect) = Inr r"
    using assms by (simp add: coercion_expected)
  show "created ps =
          (None, \<lparr>props = ps,
                  inst_cache = Some \<lparr>field_values = ps(ClipRect := r),
                                      listeners = [(''synccomplete'', EmitRedraw)],
                                      synced = [ps(ClipRect := r)]\<rparr>,
                  trace = [NewText, AddEventListener ''synccomplete'', Sync]\<rparr>)"
    by (rule created_fields [of ps r, OF c])
  show "expected_field b (ps b) = Some ((ps(ClipRect := r)) b)"
    using assms by (cases "b = ClipRect") (simp_all add: expected_field_def)
qed

lemma change_expected:
  "\<exists>f. inst_fields (live ps ops) = Some f \<and>
     (case expected_field a v of
        Some w \<Rightarrow>
          fst (propChange a v (live ps ops)) = None \<and>
          inst_fields (snd (propChange a v (live ps ops))) = Some (f(a := w))
      | None \<Rightarrow>
          fst (propChange a v (live ps ops)) = Some TypeError \<and>
          inst_fields (snd (propChange a v (live ps ops))) = Some f \<and>
          new_events (live ps ops) (snd (propChange a v (live ps ops))) = [])"
proof (cases "expected_field a v")
  case None
  then have c: "coercion a v = Inl TypeError" by (simp add: coercion_expected)
  obtain m where m: "inst_cache (live ps ops) = Some m"
    using one_Text_cache [OF one_Text_live] by blast
  from change_throws [OF one_Text_live c, of ps ops] m None show ?thesis
    by (simp add: inst_fields_def new_events_def)
next
  case (Some w)
  then have "coercion a v = Inr w" by (simp add: coercion_expected)
  from inst_fields_change [OF one_Text_live this, of ps ops] Some show ?thesis
    by auto
qed

lemma expected_0011:
  "expected_field ClipRect (str ''0,0,1,1'') =
     Some (Arr [Num (Fin 0), Num (Fin 0), Num (Fin 1), Num (Fin 1)])"
  by (simp add: expected_field_def str_def parseFloat_def unsigned_literal_def
        is_ws_def is_digit_def digits_val_def exponent_part_def scale10_def)

lemma validateColor_flag:
  "map_of ps ''isColor'' = Some p \<Longrightarrow> truthy_prim p \<Longrightarrow>
   nullableValidator validateColor (Obj ps) = Inr (Prim p)"
  by (simp add: nullableValidator_def validateColor_def)

section \<open>The claims\<close>

text \<open>
  Claim C1 says that at every change the new value is copied, coerced, into the field.
  When \<^verbatim>\<open>clipRect\<close> changes to the number 5, the coercion throws a TypeError (a
  number is no array and has no \<^verbatim>\<open>split\<close>) before anything is assigned: the field
  keeps the value it had, here null, on a component created with the default props.
\<close>

theorem clipRect_number_is_not_copied:
  "inst_fields (live prop_default []) = Some prop_default \<and>
   prop_default ClipRect = Prim Null \<and>
   fst (propChange ClipRect (num 5) (live prop_default [])) = Some TypeError \<and>
   inst_fields (snd (propChange ClipRect (num 5) (live prop_default []))) = Some prop_default"
proof -
  have "expected_field ClipRect (num 5) = None"
    by (simp add: expected_field_def num_def)
  with change_expected [of prop_default "[]" ClipRect "num 5"] live_default
  show ?thesis by simp
qed

text \<open>
  Claim C1, amended. On a live component (created with any props and taken through any
  changes and resync completions), a change of an attribute other than \<^verbatim>\<open>clipRect\<close>
  copies the new value, as it is, into the field of the same name of the \<^verbatim>\<open>Text\<close>. A
  change of \<^verbatim>\<open>clipRect\<close> to null, undefined, a string or an array stores the coerced
  value \<open>clipRect_array\<close> gives: null, or the array of numbers read by
  \<^verbatim>\<open>parseFloat\<close>; the string \<^verbatim>\<open>"0,0,1,1"\<close> gives \<^verbatim>\<open>[0,0,1,1]\<close>. A change of
  \<^verbatim>\<open>clipRect\<close> to any other value throws a TypeError, and the field keeps its value
  and nothing is emitted. Creation does the same with all 31 props when \<^verbatim>\<open>clipRect\<close>
  is null, undefined, a string or an array; with another \<^verbatim>\<open>clipRect\<close> its handler
  throws a TypeError, and the fields of \<^verbatim>\<open>clipRect\<close>, \<^verbatim>\<open>orientation\<close>,
  \<^verbatim>\<open>glyphGeometryDetail\<close> and \<^verbatim>\<open>sdfGlyphSize\<close> keep the values of a fresh
  \<^verbatim>\<open>Text\<close>, the other 27 holding their props.
\<close>

theorem attribute_value_copied:
  "(\<exists>f. inst_fields (live ps ops) = Some f \<and>
      (case expected_field a v of
         Some w \<Rightarrow>
           fst (propChange a v (live ps ops)) = None \<and>
           inst_fields (snd (propChange a v (live ps ops))) = Some (f(a := w))
       | None \<Rightarrow>
           fst (propChange a v (live ps ops)) = Some TypeError \<and>
           inst_fields (snd (propChange a v (live ps ops))) = Some f \<and>
           new_events (live ps ops) (snd (propChange a v (live ps ops))) = [])) \<and>
   (case expected_field ClipRect (ps ClipRect) of
      Some r \<Rightarrow>
        fst (created ps) = None \<and>
        inst_fields (snd (created ps)) = Some (ps(ClipRect := r)) \<and>
        (\<forall>b. expected_field b (ps b) = Some ((ps(ClipRect := r)) b))
    | None \<Rightarrow>
        fst (created ps) = Some TypeError \<and>
        inst_fields (snd (created ps)) = Some (partly_applied ps)) \<and>
   (expected_field ClipRect v \<noteq> None) = (eq_null v \<or> is_string v \<or> is_array v) \<and>
   expected_field ClipRect (str ''0,0,1,1'') =
     Some (Arr [Num (Fin 0), Num (Fin 0), Num (Fin 1), Num (Fin 1)])"
proof -
  have p2: "(case expected_field ClipRect (ps ClipRect) of
      Some r \<Rightarrow>
        fst (created ps) = None \<and>
        inst_fields (snd (created ps)) = Some (ps(ClipRect := r)) \<and>
        (\<forall>b. expected_field b (ps b) = Some ((ps(ClipRect := r)) b))
    | None \<Rightarrow>
        fst (created ps) = Some TypeError \<and>
        inst_fields (snd (created ps)) = Some (partly_applied ps))"
  proof (cases "expected_field ClipRect (ps ClipRect)")
    case None
    from created_failed [of ps, OF None] None show ?thesis
      by (simp add: inst_fields_def)
  next
    case (Some r)
    from created_applied [of ps r, OF Some] Some show ?thesis
      by (simp add: inst_fields_def)
  qed
  have p3: "(expected_field ClipRect v \<noteq> None) = (eq_null v \<or> is_string v \<or> is_array v)"
    using clipRect_array_defined [of v] by (simp add: expected_field_def)
  from change_expected [of ps ops a v] p2 p3 expected_0011 show ?thesis by blast
qed

theorem attribute_value_copied_witness:
  "inst_fields (snd (propChange ClipRect (str ''0,0,1,1'') (live prop_default []))) =
     Some (prop_default(ClipRect := Arr [Num (Fin 0), Num (Fin 0), Num (Fin 1), Num (Fin 1)])) \<and>
   fst (propChange ClipRect (str ''0,0,1,1'') (live prop_default [])) = None \<and>
   inst_fields (snd (propChange FontSize (num (1 / 5)) (live prop_default []))) =
     Some (prop_default(FontSize := num (1 / 5))) \<and>
   fst (created prop_default) = None \<and>
   inst_fields (snd (created prop_default)) = Some prop_default \<and>
   fst (created (prop_default(ClipRect := Prim (Bool True)))) = Some TypeError \<and>
   inst_fields (snd (created (prop_default(ClipRect := Prim (Bool True))))) =
     Some (partly_applied (prop_default(ClipRect := Prim (Bool True))))"
proof -
  have e1: "expected_field ClipRect (str ''0,0,1,1'') =
     Some (Arr [Num (Fin 0), Num (Fin 0), Num (Fin 1), Num (Fin 1)])"
    by (simp add: expected_field_def str_def parseFloat_def unsigned_literal_def
        is_ws_def is_digit_def digits_val_def exponent_part_def scale10_def)
  have e2: "expected_field FontSize (num (1 / 5)) = Some (num (1 / 5))"
    "expected_field ClipRect (prop_default ClipRect) = Some (Prim Null)"
    "expected_field ClipRect ((prop_default(ClipRect := Prim (Bool True))) ClipRect) = None"
    by (simp_all add: expected_field_def)
  have e3: "prop_default(ClipRect := Prim Null) = prop_default"
    by (rule ext) simp
  from attribute_value_copied [of prop_default "[]" ClipRect "str ''0,0,1,1''"]
       attribute_value_copied [of prop_default "[]" FontSize "num (1 / 5)"]
       attribute_value_copied [of "prop_default(ClipRect := Prim (Bool True))" "[]" Text "str ''x''"]
       live_default e1 e2 e3
  show ?thesis by auto
qed

text \<open>
  Claim C2 says that the handlers are classified exactly as the specification states,
  the layout-affecting attributes being the fourteen of \<open>spec_layout_affecting\<close>. The
  watcher of \<^verbatim>\<open>sdfGlyphSize\<close>, which is not among them, calls \<^verbatim>\<open>sync()\<close> and
  emits nothing: here on a component created with the default props, when the prop
  changes to 128.
\<close>

theorem sdfGlyphSize_change_resyncs:
  "SdfGlyphSize \<notin> set spec_layout_affecting \<and>
   new_events (live prop_default [])
     (snd (propChange SdfGlyphSize (num 128) (live prop_default []))) = [Sync]"
proof -
  have "coercion SdfGlyphSize (num 128) = Inr (num 128)"
    by (simp add: coercion_def)
  from inst_fields_change [OF one_Text_live this, of prop_default "[]"]
  show ?thesis by (auto simp: spec_layout_affecting_def resync_attrs_def)
qed

text \<open>
  Claim C2, amended. A change of one of the fourteen attributes the specification names,
  or of \<^verbatim>\<open>sdfGlyphSize\<close>, calls \<^verbatim>\<open>sync()\<close> once and emits nothing. A change of
  any of the other sixteen attributes (colour, outline, stroke and fill styling, depth
  offset, clipping, orientation, curvature, glyph geometry detail) emits the redraw
  signal once, synchronously, and calls no \<^verbatim>\<open>sync()\<close>; for \<^verbatim>\<open>clipRect\<close> that is
  when the coercion of the value returns, and the other fifteen have no coercion. Every
  attribute is in exactly one of the two classes.
\<close>

theorem change_handler_classification:
  "(a \<in> set resync_attrs \<longrightarrow>
      fst (propChange a v (live ps ops)) = None \<and>
      new_events (live ps ops) (snd (propChange a v (live ps ops))) = [Sync]) \<and>
   (a \<in> set redraw_attrs \<and> coercion a v = Inr w \<longrightarrow>
      fst (propChange a v (live ps ops)) = None \<and>
      new_events (live ps ops) (snd (propChange a v (live ps ops))) = [Emit]) \<and>
   (a \<in> set redraw_attrs \<and> a \<noteq> ClipRect \<longrightarrow> coercion a v = Inr v) \<and>
   (a \<in> set resync_attrs) \<noteq> (a \<in> set redraw_attrs) \<and>
   set resync_attrs = set spec_layout_affecting \<union> {SdfGlyphSize}"
proof -
  have p1: "fst (propChange a v (live ps ops)) = None \<and>
      new_events (live ps ops) (snd (propChange a v (live ps ops))) = [Sync]"
    if a: "a \<in> set resync_attrs"
    using inst_fields_change [OF one_Text_live resync_no_coercion [OF a], of ps ops v] a
    by auto
  have p2: "fst (propChange a v (live ps ops)) = None \<and>
      new_events (live ps ops) (snd (propChange a v (live ps ops))) = [Emit]"
    if a: "a \<in> set redraw_attrs \<and> coercion a v = Inr w"
  proof -
    from a have "a \<notin> set resync_attrs" using resync_not_redraw by blast
    with inst_fields_change [OF one_Text_live, of a v w ps ops] a
    show ?thesis by auto
  qed
  have p3: "coercion a v = Inr v" if "a \<in> set redraw_attrs \<and> a \<noteq> ClipRect"
    using that by (simp add: coercion_other)
  have p4: "(a \<in> set resync_attrs) \<noteq> (a \<in> set redraw_attrs)"
    using resync_or_redraw [of a] resync_not_redraw [of a] by blast
  have p5: "set resync_attrs = set spec_layout_affecting \<union> {SdfGlyphSize}"
    by (auto simp: resync_attrs_def spec_layout_affecting_def)
  from p1 p2 p3 p4 p5 show ?thesis by blast
qed

theorem change_handler_classification_witness:
  "Text \<in> set resync_attrs \<and>
   fst (propChange Text (str ''hello'') (live prop_default [])) = None \<and>
   new_events (live prop_default [])
     (snd (propChange Text (str ''hello'') (live prop_default []))) = [Sync] \<and>
   StrokeColor \<in> set redraw_attrs \<and> StrokeColor \<noteq> ClipRect \<and>
   coercion StrokeColor (str ''red'') = Inr (str ''red'') \<and>
   fst (propChange StrokeColor (str ''red'') (live prop_default [])) = None \<and>
   new_events (live prop_default [])
     (snd (propChange StrokeColor (str ''red'') (live prop_default []))) = [Emit]"
proof -
  have h1: "Text \<in> set resync_attrs"
    by (simp add: resync_attrs_def spec_layout_affecting_def)
  have h2: "StrokeColor \<in> set redraw_attrs" "StrokeColor \<noteq> ClipRect"
    by (simp_all add: redraw_attrs_def)
  from change_handler_classification [of Text "str ''hello''" prop_default "[]" "str ''hello''"]
       change_handler_classification [of StrokeColor "str ''red''" prop_default "[]" "str ''red''"]
       h1 h2
  show ?thesis by auto
qed

text \<open>
  Claim C3. On a live component, one change of a layout-affecting attribute (any
  attribute of \<open>resync_attrs\<close>, which holds the fourteen that the specification names
  and \<^verbatim>\<open>sdfGlyphSize\<close>) makes the handler call \<^verbatim>\<open>sync()\<close> exactly once and emit
  nothing: the events of the handler are \<open>[Sync]\<close>. The redraw signal is emitted when
  the \<^verbatim>\<open>Text\<close> dispatches \<^verbatim>\<open>synccomplete\<close> afterwards, once.
\<close>

theorem layout_change_resyncs_once:
  assumes "a \<in> set resync_attrs"
  shows "fst (propChange a v (live ps ops)) = None \<and>
         new_events (live ps ops) (snd (propChange a v (live ps ops))) = [Sync] \<and>
         new_events (snd (propChange a v (live ps ops)))
           (dispatchEvent ''synccomplete'' (snd (propChange a v (live ps ops)))) = [Emit]"
proof -
  let ?c' = "snd (propChange a v (live ps ops))"
  have "?c' = step (live ps ops) (PropChange a v)" by simp
  then have "one_Text ?c'" using one_Text_step [OF one_Text_live, of ps ops "PropChange a v"] by simp
  then have "new_events ?c' (dispatchEvent ''synccomplete'' ?c') = [Emit]"
    by (simp add: dispatch_synccomplete new_events_log)
  moreover from inst_fields_change [OF one_Text_live resync_no_coercion [OF assms], of ps ops v] assms
  have "fst (propChange a v (live ps ops)) = None \<and>
         new_events (live ps ops) ?c' = [Sync]"
    by auto
  ultimately show ?thesis by blast
qed

theorem layout_change_resyncs_once_witness:
  "Text \<in> set resync_attrs \<and>
   fst (propChange Text (str ''hello'') (live prop_default [])) = None \<and>
   new_events (live prop_default [])
     (snd (propChange Text (str ''hello'') (live prop_default []))) = [Sync] \<and>
   new_events (snd (propChange Text (str ''hello'') (live prop_default [])))
     (dispatchEvent ''synccomplete''
        (snd (propChange Text (str ''hello'') (live prop_default [])))) = [Emit] \<and>
   trace (dispatchEvent ''synccomplete''
        (snd (propChange Text (str ''hello'') (live prop_default [])))) =
     [NewText, AddEventListener ''synccomplete'', Sync, Sync, Emit]"
proof -
  have h1: "Text \<in> set resync_attrs"
    by (simp add: resync_attrs_def spec_layout_affecting_def)
  have h2: "trace (live prop_default []) = [NewText, AddEventListener ''synccomplete'', Sync]"
    by (simp add: live_def run_def created_eq coercion_null)
  have t1: "trace (snd (propChange Text (str ''hello'') (live prop_default []))) =
        [NewText, AddEventListener ''synccomplete'', Sync, Sync]"
    using propChange_live [OF one_Text_live [of prop_default "[]"], where a = Text and v = "str ''hello''"] h1 h2
    by (auto simp: coercion_def)
  have "one_Text (step (live prop_default []) (PropChange Text (str ''hello'')))"
    by (rule one_Text_step [OF one_Text_live])
  then have t2: "trace (dispatchEvent ''synccomplete''
        (snd (propChange Text (str ''hello'') (live prop_default [])))) =
     [NewText, AddEventListener ''synccomplete'', Sync, Sync, Emit]"
    using t1 by (simp add: dispatch_synccomplete)
  from layout_change_resyncs_once [OF h1, of "str ''hello''" prop_default "[]"] h1 t2
  show ?thesis by simp
qed

text \<open>
  Claim C4 says that a colour attribute given a value of an unrecognized shape keeps its
  previous value in the \<^verbatim>\<open>Text\<close>. The validator does reject the boolean
  \<^verbatim>\<open>true\<close>, but the watcher of \<^verbatim>\<open>color\<close> has no guard: on a component created
  with the default props, whose \<^verbatim>\<open>color\<close> field is null, the change stores the
  boolean in the field.
\<close>

theorem boolean_color_is_stored:
  "nullableValidator validateColor (Prim (Bool True)) = Inr (Prim (Bool False)) \<and>
   inst_fields (live prop_default []) = Some prop_default \<and>
   prop_default Color = Prim Null \<and>
   inst_fields (snd (propChange Color (Prim (Bool True)) (live prop_default []))) =
     Some (prop_default(Color := Prim (Bool True)))"
proof -
  have "coercion Color (Prim (Bool True)) = Inr (Prim (Bool True))"
    by (simp add: coercion_def)
  from inst_fields_change [OF one_Text_live this, of prop_default "[]"] live_default
  show ?thesis by (auto simp: validateColor_boolean)
qed

text \<open>
  Claim C4, amended. For each of the colour-typed attributes \<^verbatim>\<open>color\<close>,
  \<^verbatim>\<open>outlineColor\<close> and \<^verbatim>\<open>strokeColor\<close>, the declared validator rejects a boolean
  (it returns \<^verbatim>\<open>false\<close>); the rejection is advisory, and when the attribute changes
  to a value, whatever its shape, the watcher stores that value in the field of the
  \<^verbatim>\<open>Text\<close> and emits the redraw signal.
\<close>

theorem color_validator_is_advisory:
  assumes "a \<in> set color_attrs"
  shows "prop_validator a = Some (nullableValidator validateColor) \<and>
         nullableValidator validateColor (Prim (Bool b)) = Inr (Prim (Bool False)) \<and>
         (\<exists>f. inst_fields (live ps ops) = Some f \<and>
              fst (propChange a v (live ps ops)) = None \<and>
              inst_fields (snd (propChange a v (live ps ops))) = Some (f(a := v)) \<and>
              new_events (live ps ops) (snd (propChange a v (live ps ops))) = [Emit])"
proof -
  from color_attrs_redraw [OF assms] have r: "a \<in> set redraw_attrs" "a \<noteq> ClipRect"
    by simp_all
  then have n: "a \<notin> set resync_attrs" using resync_not_redraw by blast
  have "coercion a v = Inr v" using r by (simp add: coercion_other)
  from inst_fields_change [OF one_Text_live this, of ps ops] n
  show ?thesis by (simp add: color_attrs_validator [OF assms] validateColor_boolean)
qed

theorem color_validator_is_advisory_witness:
  "OutlineColor \<in> set color_attrs \<and>
   prop_validator OutlineColor = Some (nullableValidator validateColor) \<and>
   nullableValidator validateColor (Prim (Bool False)) = Inr (Prim (Bool False)) \<and>
   fst (propChange OutlineColor (Prim (Bool False)) (live prop_default [])) = None \<and>
   inst_fields (snd (propChange OutlineColor (Prim (Bool False)) (live prop_default []))) =
     Some (prop_default(OutlineColor := Prim (Bool False))) \<and>
   new_events (live prop_default [])
     (snd (propChange OutlineColor (Prim (Bool False)) (live prop_default []))) = [Emit]"
proof -
  have h: "OutlineColor \<in> set color_attrs" by (simp add: color_attrs_def)
  from color_validator_is_advisory [OF h, of False prop_default "[]" "Prim (Bool False)"]
       live_default h
  show ?thesis by auto
qed




text \<open>
  Claim C6. Setting an attribute to null sets the field of the \<^verbatim>\<open>Text\<close> to null:
  for \<^verbatim>\<open>font\<close>, \<^verbatim>\<open>clipRect\<close> and every other attribute, at a change and at
  creation, and for \<^verbatim>\<open>clipRect\<close> the parser is not run on it. The coercion
  \<^verbatim>\<open>nullableParser(p)\<close> maps null to null and a non-null value \<open>x\<close> to \<open>p x\<close>,
  where null is what the code tests, \<^verbatim>\<open>value == null\<close>: undefined passes that test
  and is mapped to null too.
\<close>

theorem null_passes_through:
  "nullableParser p (Prim Null) = Inr (Prim Null) \<and>
   (eq_null v \<longrightarrow> nullableParser p v = Inr (Prim Null)) \<and>
   (\<not> eq_null v \<longrightarrow> nullableParser p v = p v) \<and>
   (\<exists>f. inst_fields (live ps ops) = Some f \<and>
        fst (propChange a (Prim Null) (live ps ops)) = None \<and>
        inst_fields (snd (propChange a (Prim Null) (live ps ops))) = Some (f(a := Prim Null))) \<and>
   (ps ClipRect = Prim Null \<longrightarrow>
      fst (created ps) = None \<and> inst_fields (snd (created ps)) = Some ps)"
proof -
  have p1: "nullableParser p (Prim Null) = Inr (Prim Null)"
    and p2: "eq_null v \<longrightarrow> nullableParser p v = Inr (Prim Null)"
    and p3: "\<not> eq_null v \<longrightarrow> nullableParser p v = p v"
    by (simp_all add: nullableParser_def)
  have p4: "\<exists>f. inst_fields (live ps ops) = Some f \<and>
        fst (propChange a (Prim Null) (live ps ops)) = None \<and>
        inst_fields (snd (propChange a (Prim Null) (live ps ops))) = Some (f(a := Prim Null))"
    using inst_fields_change [OF one_Text_live coercion_null, of ps ops a] by blast
  have p5: "fst (created ps) = None \<and> inst_fields (snd (created ps)) = Some ps"
    if n: "ps ClipRect = Prim Null"
  proof -
    have c: "coercion ClipRect (ps ClipRect) = Inr (Prim Null)"
      using n by (simp add: coercion_null)
    have "ps(ClipRect := Prim Null) = ps" using n by (simp add: fun_upd_idem)
    with created_fields [of ps "Prim Null", OF c] show ?thesis
      by (simp add: inst_fields_def)
  qed
  from p1 p2 p3 p4 p5 show ?thesis by blast
qed

theorem null_passes_through_witness:
  "eq_null (Prim Undefined) \<and>
   nullableParser parseFloatArray (Prim Undefined) = Inr (Prim Null) \<and>
   \<not> eq_null (Arr [Str ''1'', Num (Fin 2)]) \<and>
   nullableParser parseFloatArray (Arr [Str ''1'', Num (Fin 2)]) =
     Inr (Arr [Num (Fin 1), Num (Fin 2)]) \<and>
   prop_default ClipRect = Prim Null \<and>
   fst (created prop_default) = None \<and>
   inst_fields (snd (created prop_default)) = Some prop_default \<and>
   fst (propChange Font (Prim Null) (live (prop_default(Font := str ''a.ttf'')) [])) = None \<and>
   inst_fields (snd (propChange Font (Prim Null) (live (prop_default(Font := str ''a.ttf'')) []))) =
     Some prop_default \<and>
   inst_fields (snd (propChange ClipRect (Prim Null)
       (live (prop_default(ClipRect := Arr [Num (Fin 0)])) []))) = Some prop_default"
proof -
  have h1: "eq_null (Prim Undefined)" "\<not> eq_null (Arr [Str ''1'', Num (Fin 2)])"
    "prop_default ClipRect = Prim Null"
    by simp_all
  have h2: "parseFloatArray (Arr [Str ''1'', Num (Fin 2)]) = Inr (Arr [Num (Fin 1), Num (Fin 2)])"
    by (simp add: parseFloat_def unsigned_literal_def is_ws_def is_digit_def digits_val_def
          exponent_part_def scale10_def)
  have c1: "coercion ClipRect ((prop_default(Font := str ''a.ttf'')) ClipRect) = Inr (Prim Null)"
    by (simp add: coercion_null)
  have f1: "inst_fields (live (prop_default(Font := str ''a.ttf'')) []) =
      Some (prop_default(Font := str ''a.ttf''))"
  proof -
    have "(prop_default(Font := str ''a.ttf''))(ClipRect := Prim Null) = prop_default(Font := str ''a.ttf'')"
      by (rule ext) simp
    with created_fields [of "prop_default(Font := str ''a.ttf'')" "Prim Null", OF c1]
    show ?thesis by (simp add: live_def run_def inst_fields_def)
  qed
  have c2: "coercion ClipRect ((prop_default(ClipRect := Arr [Num (Fin 0)])) ClipRect)
      = Inr (Arr [Num (Fin 0)])"
    by (simp add: coercion_def nullableParser_def)
  have f2: "inst_fields (live (prop_default(ClipRect := Arr [Num (Fin 0)])) []) =
      Some (prop_default(ClipRect := Arr [Num (Fin 0)]))"
    using created_fields [of "prop_default(ClipRect := Arr [Num (Fin 0)])" "Arr [Num (Fin 0)]", OF c2]
    by (simp add: live_def run_def inst_fields_def)
  have e1: "(prop_default(Font := str ''a.ttf''))(Font := Prim Null) = prop_default"
    by (rule ext) simp
  have e2: "(prop_default(ClipRect := Arr [Num (Fin 0)]))(ClipRect := Prim Null) = prop_default"
    by (rule ext) simp
  from null_passes_through [of parseFloatArray "Prim Undefined" "prop_default(Font := str ''a.ttf'')" "[]" Font]
       null_passes_through [of parseFloatArray "Arr [Str ''1'', Num (Fin 2)]"
          "prop_default(ClipRect := Arr [Num (Fin 0)])" "[]" ClipRect]
       null_passes_through [of parseFloatArray "Prim Null" prop_default "[]" Font]
       h1 h2 f1 f2 e1 e2
  show ?thesis by auto
qed


text \<open>
  Claim C8 says that creation applies every attribute and then calls \<^verbatim>\<open>sync()\<close>. A
  component created with \<^verbatim>\<open>clipRect\<close> 5 and \<^verbatim>\<open>orientation\<close> \<^verbatim>\<open>"+x-z"\<close>: the
  handler throws a TypeError at the \<^verbatim>\<open>clipRect\<close> line, \<^verbatim>\<open>sync()\<close> is never called,
  and the \<^verbatim>\<open>orientation\<close> of the \<^verbatim>\<open>Text\<close> is still the \<^verbatim>\<open>"+x+y"\<close> of a fresh one.
\<close>

theorem creation_with_number_clipRect_stops:
  "fst (created (prop_default(ClipRect := num 5, Orientation := str ''+x-z''))) = Some TypeError \<and>
   trace (snd (created (prop_default(ClipRect := num 5, Orientation := str ''+x-z'')))) =
     [NewText, AddEventListener ''synccomplete''] \<and>
   inst_synced (snd (created (prop_default(ClipRect := num 5, Orientation := str ''+x-z'')))) =
     Some [] \<and>
   map_option (\<lambda>f. f Orientation)
     (inst_fields (snd (created (prop_default(ClipRect := num 5, Orientation := str ''+x-z''))))) =
     Some (str ''+x+y'')"
proof -
  have "expected_field ClipRect
          ((prop_default(ClipRect := num 5, Orientation := str ''+x-z'')) ClipRect) = None"
    by (simp add: expected_field_def num_def)
  from created_failed [of "prop_default(ClipRect := num 5, Orientation := str ''+x-z'')", OF this]
  show ?thesis
    by (simp add: inst_synced_def inst_fields_def partly_applied_def)
qed

text \<open>
  Claim C8, amended. Creation constructs the \<^verbatim>\<open>Text\<close> and registers on it one
  listener for \<^verbatim>\<open>synccomplete\<close>, which emits the redraw signal: on a live component
  each dispatch of \<^verbatim>\<open>synccomplete\<close> emits it once. When the \<^verbatim>\<open>clipRect\<close> prop is
  null, undefined, a string or an array, creation copies every prop (\<^verbatim>\<open>clipRect\<close>
  coerced) into the field of its name and then calls \<^verbatim>\<open>sync()\<close> once, a call that
  sees all 31 fields applied. With any other \<^verbatim>\<open>clipRect\<close> the handler throws a
  TypeError: the 27 props before \<^verbatim>\<open>clipRect\<close> are applied, \<^verbatim>\<open>clipRect\<close>,
  \<^verbatim>\<open>orientation\<close>, \<^verbatim>\<open>glyphGeometryDetail\<close> and \<^verbatim>\<open>sdfGlyphSize\<close> are not, and
  \<^verbatim>\<open>sync()\<close> is not called.
\<close>

theorem creation_listens_applies_and_syncs:
  "(case expected_field ClipRect (ps ClipRect) of
      Some r \<Rightarrow>
        created ps =
          (None, \<lparr>props = ps,
                  inst_cache = Some \<lparr>field_values = ps(ClipRect := r),
                                      listeners = [(''synccomplete'', EmitRedraw)],
                                      synced = [ps(ClipRect := r)]\<rparr>,
                  trace = [NewText, AddEventListener ''synccomplete'', Sync]\<rparr>) \<and>
        (\<forall>b. expected_field b (ps b) = Some ((ps(ClipRect := r)) b))
    | None \<Rightarrow>
        created ps =
          (Some TypeError,
           \<lparr>props = ps,
            inst_cache = Some \<lparr>field_values = partly_applied ps,
                                listeners = [(''synccomplete'', EmitRedraw)],
                                synced = []\<rparr>,
            trace = [NewText, AddEventListener ''synccomplete'']\<rparr>)) \<and>
   (expected_field ClipRect (ps ClipRect) \<noteq> None) =
     (eq_null (ps ClipRect) \<or> is_string (ps ClipRect) \<or> is_array (ps ClipRect)) \<and>
   new_events (live ps ops) (dispatchEvent ''synccomplete'' (live ps ops)) = [Emit]"
proof -
  have p1: "(case expected_field ClipRect (ps ClipRect) of
      Some r \<Rightarrow>
        created ps =
          (None, \<lparr>props = ps,
                  inst_cache = Some \<lparr>field_values = ps(ClipRect := r),
                                      listeners = [(''synccomplete'', EmitRedraw)],
                                      synced = [ps(ClipRect := r)]\<rparr>,
                  trace = [NewText, AddEventListener ''synccomplete'', Sync]\<rparr>) \<and>
        (\<forall>b. expected_field b (ps b) = Some ((ps(ClipRect := r)) b))
    | None \<Rightarrow>
        created ps =
          (Some TypeError,
           \<lparr>props = ps,
            inst_cache = Some \<lparr>field_values = partly_applied ps,
                                listeners = [(''synccomplete'', EmitRedraw)],
                                synced = []\<rparr>,
            trace = [NewText, AddEventListener ''synccomplete'']\<rparr>))"
  proof (cases "expected_field ClipRect (ps ClipRect)")
    case None
    from created_failed [of ps, OF None] None show ?thesis by simp
  next
    case (Some r)
    from created_applied [of ps r, OF Some] Some show ?thesis by simp
  qed
  have p2: "(expected_field ClipRect (ps ClipRect) \<noteq> None) =
     (eq_null (ps ClipRect) \<or> is_string (ps ClipRect) \<or> is_array (ps ClipRect))"
    using clipRect_array_defined [of "ps ClipRect"] by (simp add: expected_field_def)
  have p3: "new_events (live ps ops) (dispatchEvent ''synccomplete'' (live ps ops)) = [Emit]"
    by (simp add: dispatch_synccomplete [OF one_Text_live] new_events_log)
  from p1 p2 p3 show ?thesis by blast
qed

theorem creation_listens_applies_and_syncs_witness:
  "created (prop_default(ClipRect := str ''0,0,1,1'', Text := str ''hi'')) =
     (None, \<lparr>props = prop_default(ClipRect := str ''0,0,1,1'', Text := str ''hi''),
             inst_cache = Some \<lparr>field_values =
                 prop_default(ClipRect := Arr [Num (Fin 0), Num (Fin 0), Num (Fin 1), Num (Fin 1)],
                              Text := str ''hi''),
               listeners = [(''synccomplete'', EmitRedraw)],
               synced =
                 [prop_default(ClipRect := Arr [Num (Fin 0), Num (Fin 0), Num (Fin 1), Num (Fin 1)],
                               Text := str ''hi'')]\<rparr>,
             trace = [NewText, AddEventListener ''synccomplete'', Sync]\<rparr>) \<and>
   new_events (live (prop_default(ClipRect := str ''0,0,1,1'', Text := str ''hi'')) [SyncComplete])
     (dispatchEvent ''synccomplete''
        (live (prop_default(ClipRect := str ''0,0,1,1'', Text := str ''hi'')) [SyncComplete])) = [Emit]"
proof -
  have h: "expected_field ClipRect ((prop_default(ClipRect := str ''0,0,1,1'', Text := str ''hi'')) ClipRect) =
     Some (Arr [Num (Fin 0), Num (Fin 0), Num (Fin 1), Num (Fin 1)])"
    by (simp add: expected_field_def str_def parseFloat_def unsigned_literal_def
        is_ws_def is_digit_def digits_val_def exponent_part_def scale10_def)
  have e: "(prop_default(ClipRect := str ''0,0,1,1'', Text := str ''hi''))
             (ClipRect := Arr [Num (Fin 0), Num (Fin 0), Num (Fin 1), Num (Fin 1)]) =
           prop_default(ClipRect := Arr [Num (Fin 0), Num (Fin 0), Num (Fin 1), Num (Fin 1)],
                        Text := str ''hi'')"
    by (rule ext) simp
  from creation_listens_applies_and_syncs
         [of "prop_default(ClipRect := str ''0,0,1,1'', Text := str ''hi'')" "[SyncComplete]"] h e
  show ?thesis by simp
qed

text \<open>
  Claim C9 says that the validators and coercions throw on no input and that the wrapped
  validators return a boolean on every input. On the number 5, which has no
  \<^verbatim>\<open>split\<close> method, the wrapped array validator and the wrapped array parser throw a
  TypeError; and the wrapped colour validator returns the number 1, not a boolean, on
  the object \<^verbatim>\<open>{isColor: 1}\<close>.
\<close>

theorem float_array_validator_throws_on_number:
  "nullableValidator validateFloatArray (num 5) = Inl TypeError \<and>
   nullableParser parseFloatArray (num 5) = Inl TypeError \<and>
   nullableValidator validateColor (Obj [(''isColor'', Num (Fin 1))]) = Inr (Prim (Num (Fin 1))) \<and>
   \<not> is_boolean (Prim (Num (Fin 1)))"
  by (simp add: nullableValidator_def nullableParser_def num_def validateColor_def)

text \<open>
  Claim C9, amended, for the values of the model (undefined, null, booleans, numbers,
  strings, arrays of these, objects with such properties). The wrapped colour validator
  throws on none of them, null and undefined included; it returns a boolean on every
  value whose \<^verbatim>\<open>isColor\<close> flag is not set, and on an object whose flag is set it
  returns the value of the flag, which is \<^verbatim>\<open>true\<close> when the flag is \<^verbatim>\<open>true\<close>. The
  wrapped array validator returns a boolean, and the wrapped array parser returns null
  or an array of numbers, on the values of their declared type: null, undefined, every
  string and every array; both throw a TypeError on every other value. On null and
  undefined the validators return \<^verbatim>\<open>true\<close> and the parser returns null, without
  touching the value.
\<close>

theorem validators_total_on_declared_types:
  "(\<exists>res. nullableValidator validateColor v = Inr res) \<and>
   (\<not> isColor_set v \<longrightarrow> (\<exists>b. nullableValidator validateColor v = Inr (Prim (Bool b)))) \<and>
   (isColor_set v \<longrightarrow>
      (\<exists>ps p. v = Obj ps \<and> map_of ps ''isColor'' = Some p \<and> truthy_prim p \<and>
              nullableValidator validateColor v = Inr (Prim p))) \<and>
   (map_of qs ''isColor'' = Some (Bool True) \<longrightarrow>
      nullableValidator validateColor (Obj qs) = Inr (Prim (Bool True))) \<and>
   (eq_null v \<longrightarrow>
      nullableValidator validateColor v = Inr (Prim (Bool True)) \<and>
      nullableValidator validateFloatArray v = Inr (Prim (Bool True)) \<and>
      nullableParser parseFloatArray v = Inr (Prim Null)) \<and>
   (eq_null v \<or> is_string v \<or> is_array v \<longrightarrow>
      (\<exists>b. nullableValidator validateFloatArray v = Inr (Prim (Bool b))) \<and>
      (\<exists>w. nullableParser parseFloatArray v = Inr w \<and>
           (w = Prim Null \<or> (\<exists>ns. w = Arr (map Num ns))))) \<and>
   (\<not> eq_null v \<and> \<not> is_string v \<and> \<not> is_array v \<longrightarrow>
      nullableValidator validateFloatArray v = Inl TypeError \<and>
      nullableParser parseFloatArray v = Inl TypeError)"
proof -
  have p1: "\<exists>res. nullableValidator validateColor v = Inr res"
  proof (cases "eq_null v")
    case True
    then show ?thesis by (simp add: nullableValidator_null)
  next
    case False
    with validateColor_nonnull [OF False] show ?thesis
      by (auto simp: nullableValidator_nonnull)
  qed
  have p2: "\<exists>b. nullableValidator validateColor v = Inr (Prim (Bool b))" if n: "\<not> isColor_set v"
  proof (cases "eq_null v")
    case True
    then show ?thesis by (auto simp: nullableValidator_null)
  next
    case False
    with validateColor_boolean_result [OF False n] show ?thesis
      by (simp add: nullableValidator_nonnull)
  qed
  have p3: "\<exists>ps p. v = Obj ps \<and> map_of ps ''isColor'' = Some p \<and> truthy_prim p \<and>
              nullableValidator validateColor v = Inr (Prim p)" if s: "isColor_set v"
  proof (cases v rule: isColor_set.cases)
    case (1 ps)
    with s obtain p where p: "map_of ps ''isColor'' = Some p" "truthy_prim p"
      by (auto split: option.splits)
    with 1 validateColor_flag [OF p] show ?thesis by blast
  qed (use s in simp_all)
  have p4: "nullableValidator validateColor (Obj qs) = Inr (Prim (Bool True))"
    if "map_of qs ''isColor'' = Some (Bool True)"
    using validateColor_flag [OF that] by simp
  have p5: "nullableValidator validateColor v = Inr (Prim (Bool True)) \<and>
      nullableValidator validateFloatArray v = Inr (Prim (Bool True)) \<and>
      nullableParser parseFloatArray v = Inr (Prim Null)" if "eq_null v"
    using that by (simp add: nullableValidator_null nullableParser_def)
  have p6: "(\<exists>b. nullableValidator validateFloatArray v = Inr (Prim (Bool b))) \<and>
      (\<exists>w. nullableParser parseFloatArray v = Inr w \<and>
           (w = Prim Null \<or> (\<exists>ns. w = Arr (map Num ns))))"
    if t: "eq_null v \<or> is_string v \<or> is_array v"
  proof
    show "\<exists>b. nullableValidator validateFloatArray v = Inr (Prim (Bool b))"
    proof (cases "eq_null v")
      case True
      then show ?thesis by (auto simp: nullableValidator_null)
    next
      case False
      with t have "is_string v \<or> is_array v" by simp
      from validateFloatArray_typed [OF this] False show ?thesis
        by (simp add: nullableValidator_nonnull)
    qed
    from t obtain w where w: "clipRect_array v = Some w"
      using clipRect_array_defined [of v] by auto
    with clipRect_array_shape [OF w]
    show "\<exists>w. nullableParser parseFloatArray v = Inr w \<and>
           (w = Prim Null \<or> (\<exists>ns. w = Arr (map Num ns)))"
      by (simp add: nullableParser_clipRect_array)
  qed
  have p7: "nullableValidator validateFloatArray v = Inl TypeError \<and>
      nullableParser parseFloatArray v = Inl TypeError"
    if t: "\<not> eq_null v \<and> \<not> is_string v \<and> \<not> is_array v"
  proof -
    from t have "clipRect_array v = None" using clipRect_array_defined [of v] by simp
    with t show ?thesis
      by (simp add: nullableValidator_nonnull validateFloatArray_other nullableParser_clipRect_array)
  qed
  from p1 p2 p3 p4 p5 p6 p7 show ?thesis by blast
qed

theorem validators_total_on_declared_types_witness:
  "\<not> isColor_set (Arr [Num (Fin 1)]) \<and>
   nullableValidator validateColor (Arr [Num (Fin 1)]) = Inr (Prim (Bool False)) \<and>
   isColor_set (Obj [(''isColor'', Str ''yes'')]) \<and>
   nullableValidator validateColor (Obj [(''isColor'', Str ''yes'')]) = Inr (Prim (Str ''yes'')) \<and>
   map_of [(''isColor'', Bool True), (''r'', Num (Fin 1))] ''isColor'' = Some (Bool True) \<and>
   nullableValidator validateColor (Obj [(''isColor'', Bool True), (''r'', Num (Fin 1))]) =
     Inr (Prim (Bool True)) \<and>
   eq_null (Prim Undefined) \<and>
   nullableValidator validateColor (Prim Undefined) = Inr (Prim (Bool True)) \<and>
   nullableValidator validateFloatArray (Prim Undefined) = Inr (Prim (Bool True)) \<and>
   nullableParser parseFloatArray (Prim Undefined) = Inr (Prim Null) \<and>
   is_string (str ''1,,2'') \<and>
   nullableValidator validateFloatArray (str ''1,,2'') = Inr (Prim (Bool False)) \<and>
   nullableParser parseFloatArray (str ''1,,2'') = Inr (Arr [Num (Fin 1), Num NaN, Num (Fin 2)]) \<and>
   \<not> eq_null (Obj []) \<and> \<not> is_string (Obj []) \<and> \<not> is_array (Obj []) \<and>
   nullableValidator validateFloatArray (Obj []) = Inl TypeError \<and>
   nullableParser parseFloatArray (Obj []) = Inl TypeError"
proof -
  have h: "\<not> isColor_set (Arr [Num (Fin 1)])" "eq_null (Prim Undefined)" "is_string (str ''1,,2'')"
    "\<not> eq_null (Obj [])" "\<not> is_string (Obj [])" "\<not> is_array (Obj [])"
    "isColor_set (Obj [(''isColor'', Str ''yes'')])"
    "map_of [(''isColor'', Bool True), (''r'', Num (Fin 1))] ''isColor'' = Some (Bool True)"
    by (simp_all add: str_def)
  have e: "nullableValidator validateColor (Arr [Num (Fin 1)]) = Inr (Prim (Bool False))"
    "nullableValidator validateFloatArray (str ''1,,2'') = Inr (Prim (Bool False))"
    "nullableParser parseFloatArray (str ''1,,2'') = Inr (Arr [Num (Fin 1), Num NaN, Num (Fin 2)])"
    by (simp_all add: nullableValidator_def nullableParser_def validateColor_def str_def
          parseFloat_def unsigned_literal_def is_ws_def is_digit_def digits_val_def
          exponent_part_def scale10_def)
  from validators_total_on_declared_types
         [of "Arr [Num (Fin 1)]" "[(''isColor'', Bool True), (''r'', Num (Fin 1))]"]
       validators_total_on_declared_types [of "Obj [(''isColor'', Str ''yes'')]" "[]"]
       validators_total_on_declared_types [of "Prim Undefined" "[]"]
       validators_total_on_declared_types [of "str ''1,,2''" "[]"]
       validators_total_on_declared_types [of "Obj []" "[]"]
       h e
  show ?thesis by simp
qed

text \<open>
  Claim C10. The array validator is sound for the array parser: on every input on which
  \<^verbatim>\<open>validateFloatArray\<close> returns \<^verbatim>\<open>true\<close> (which makes it a string or an array),
  \<^verbatim>\<open>parseFloatArray\<close> returns an array of numbers none of which is NaN; and an array
  whose elements are all numbers is returned with the same numbers.
\<close>

theorem validated_array_parses_without_NaN:
  "(validateFloatArray v = Inr (Prim (Bool True)) \<longrightarrow>
      (\<exists>ns. parseFloatArray v = Inr (Arr (map Num ns)) \<and> NaN \<notin> set ns)) \<and>
   parseFloatArray (Arr (map Num ns')) = Inr (Arr (map Num ns'))"
  using parseFloatArray_validated [of v] parseFloatArray_numbers [of ns'] by blast

theorem validated_array_parses_without_NaN_witness:
  "validateFloatArray (str ''0, 0.5,1e2,-1'') = Inr (Prim (Bool True)) \<and>
   parseFloatArray (str ''0, 0.5,1e2,-1'') =
     Inr (Arr [Num (Fin 0), Num (Fin (1 / 2)), Num (Fin 100), Num (Fin (- 1))]) \<and>
   validateFloatArray (Arr [Num (Fin 3), Str ''4'']) = Inr (Prim (Bool True)) \<and>
   parseFloatArray (Arr [Num (Fin 3), Str ''4'']) = Inr (Arr [Num (Fin 3), Num (Fin 4)]) \<and>
   parseFloatArray (Arr (map Num [Fin 3, PosInf])) = Inr (Arr (map Num [Fin 3, PosInf]))"
  using validated_array_parses_without_NaN [of "str ''0, 0.5,1e2,-1''" "[Fin 3, PosInf]"]
  by (simp add: str_def parseFloat_def unsigned_literal_def is_ws_def is_digit_def
        digits_val_def exponent_part_def scale10_def)

end
